theory Spec2Isabelle
  imports Main "HOL-Library.Sublist"
begin

section \<open>Go values shared by both source files\<close>

text \<open>
  A Go function either returns or panics. A panic unwinds the goroutine of the call; it
  is never a returned \<open>error\<close> value.
\<close>

datatype 'a outcome = Returned 'a | Panicked string

text \<open>The status codes of \<open>google.golang.org/grpc/codes\<close>, in numeric order 0..16.\<close>

datatype Code =
    OK | Canceled | Unknown | InvalidArgument | DeadlineExceeded | NotFound
  | AlreadyExists | PermissionDenied | ResourceExhausted | FailedPrecondition
  | Aborted | OutOfRange | Unimplemented | Internal | Unavailable | DataLoss
  | Unauthenticated

text \<open>
  A Go \<open>error\<close> value is either a gRPC status error (\<open>status.Errorf code ...\<close>) or any
  other error, of which only the message is kept.
\<close>

datatype error = StatusErr Code string | PlainErr string

subsection \<open>\<open>strings.ReplaceAll\<close>\<close>

text \<open>
  \<open>strings.ReplaceAll s old new\<close> replaces the non-overlapping instances of \<open>old\<close>,
  scanning from the left. For an empty \<open>old\<close> it inserts \<open>new\<close> in front of the string
  and after every character (every byte, for the ASCII strings considered here).
\<close>

fun ReplaceAll :: "string \<Rightarrow> string \<Rightarrow> string \<Rightarrow> string" where
  "ReplaceAll s old new =
     (if old = [] then new @ concat (map (\<lambda>c. c # new) s)
      else if s = [] then []
      else if take (length old) s = old
        then new @ ReplaceAll (drop (length old) s) old new
      else hd s # ReplaceAll (tl s) old new)"

declare ReplaceAll.simps [simp del]

section \<open>\<open>serve/server.go\<close>: the dynamic gRPC server\<close>

subsection \<open>Descriptors and the registry\<close>

text \<open>
  The parts of the \<open>protoreflect\<close> descriptors that the two source files read: a file's
  path, package, imports, services and the full names of its messages; a service's name,
  full name and methods; a method's name and full name.
\<close>

record MethodDescriptor =
  md_Name :: string
  md_FullName :: string

record ServiceDescriptor =
  sd_Name :: string
  sd_FullName :: string
  sd_Methods :: "MethodDescriptor list"

record FileDescriptor =
  fd_Path :: string
  fd_Package :: string
  fd_Imports :: "string list"
  fd_Services :: "ServiceDescriptor list"
  fd_Messages :: "string list"

text \<open>
  \<open>FindDescriptorByName\<close> returns a \<open>protoreflect.Descriptor\<close>; the type assertion in
  \<open>lookupMethod\<close> asks which kind of descriptor it is.
\<close>

datatype Descriptor =
    FileD FileDescriptor
  | ServiceD ServiceDescriptor
  | MethodD MethodDescriptor
  | MessageD string

text \<open>The registry \<open>registry.Files\<close>: the registered files, in registration order.\<close>

type_synonym Files = "FileDescriptor list"

text \<open>An \<open>fs.FS\<close> as used by \<open>loadProtosets\<close>: globbing and reading a file.\<close>

record FS =
  fs_Glob :: "string \<Rightarrow> error + string list"
  fs_ReadFile :: "string \<Rightarrow> error + string"

text \<open>
  The server. Of the logger only the \<open>Errorf\<close> calls of \<open>addFiles\<close> are kept, as the
  pairs (file's full name, error) they format; the other log calls have no effect on
  control flow or results and are left out. The fields \<open>gs\<close>, \<open>http\<close> and \<open>eval\<close> are
  not read by the functions modelled here.
\<close>

record Server =
  s_log :: "(string \<times> error) list"
  s_files :: Files
  s_fs :: FS
  s_protosets :: "string list"

text \<open>
  What the modelled functions call outside this file: the operating system, the protobuf
  library, the registry package, the gRPC stream's context and \<open>Server.callMethod\<close>.
  \<open>'fds\<close> is a decoded \<open>FileDescriptorSet\<close>, \<open>'ss\<close> a \<open>grpc.ServerStream\<close>.
  \<open>protodesc_NewFiles\<close> gives the files of the set in the order in which \<open>RangeFiles\<close>
  visits them.
\<close>

record ('fds, 'ss) env =
  os_ReadFile :: "string \<Rightarrow> error + string"
  proto_Unmarshal :: "string \<Rightarrow> error + 'fds"
  protodesc_NewFiles :: "'fds \<Rightarrow> error + FileDescriptor list"
  RegisterFile :: "Files \<Rightarrow> FileDescriptor \<Rightarrow> error + Files"
  FindDescriptorByName :: "Files \<Rightarrow> string \<Rightarrow> error + Descriptor"
  grpc_Method :: "'ss \<Rightarrow> string option"
  callMethod :: "Server \<Rightarrow> MethodDescriptor \<Rightarrow> 'ss \<Rightarrow> (error option \<times> 'ss) outcome"

subsection \<open>Options and \<open>NewServer\<close>\<close>

type_synonym Option = "Server \<Rightarrow> error + Server"

definition WithProtosets :: "string list \<Rightarrow> Option" where
  "WithProtosets protosets s = Inr (s\<lparr>s_protosets := s_protosets s @ protosets\<rparr>)"

definition WithLogger :: "(string \<times> error) list \<Rightarrow> Option" where
  "WithLogger logger s = Inr (s\<lparr>s_log := logger\<rparr>)"

text \<open>The loop \<open>for _, opt := range options\<close> of \<open>NewServer\<close>.\<close>

fun applyOptions :: "Option list \<Rightarrow> Server \<Rightarrow> error + Server" where
  "applyOptions [] s = Inr s"
| "applyOptions (opt # options) s =
     (case opt s of Inl err \<Rightarrow> Inl err | Inr s' \<Rightarrow> applyOptions options s')"

text \<open>
  The callback given to \<open>files.RangeFiles\<close> in \<open>addFiles\<close>, run over the files of the set.
  It always returns \<open>true\<close>, so every file is visited. An error of \<open>RegisterFile\<close> is
  logged and the loop goes on.
\<close>

fun registerFiles ::
  "('fds, 'ss) env \<Rightarrow> FileDescriptor list \<Rightarrow> Server \<Rightarrow> string set \<Rightarrow> Server \<times> string set" where
  "registerFiles E [] s seen = (s, seen)"
| "registerFiles E (fd # fds) s seen =
     (if fd_Path fd \<in> seen then registerFiles E fds s seen
      else
        (case RegisterFile E (s_files s) fd of
           Inl err \<Rightarrow>
             registerFiles E fds (s\<lparr>s_log := s_log s @ [(fd_Package fd, err)]\<rparr>)
               (insert (fd_Path fd) seen)
         | Inr files' \<Rightarrow>
             registerFiles E fds (s\<lparr>s_files := files'\<rparr>) (insert (fd_Path fd) seen)))"

definition addFiles ::
  "('fds, 'ss) env \<Rightarrow> Server \<Rightarrow> string \<Rightarrow> string set \<Rightarrow> error + Server \<times> string set" where
  "addFiles E s b seen =
     (case proto_Unmarshal E b of
        Inl err \<Rightarrow> Inl err
      | Inr fds \<Rightarrow>
          (case protodesc_NewFiles E fds of
             Inl err \<Rightarrow> Inl err
           | Inr files \<Rightarrow> Inr (registerFiles E files s seen)))"

text \<open>The first loop of \<open>loadProtosets\<close>: the protoset files named by the options.\<close>

fun loadNamed ::
  "('fds, 'ss) env \<Rightarrow> string list \<Rightarrow> Server \<Rightarrow> string set \<Rightarrow> error + Server \<times> string set" where
  "loadNamed E [] s seen = Inr (s, seen)"
| "loadNamed E (protoset # rest) s seen =
     (case os_ReadFile E protoset of
        Inl err \<Rightarrow> Inl err
      | Inr b \<Rightarrow>
          (case addFiles E s b seen of
             Inl err \<Rightarrow> Inl err
           | Inr (s', seen') \<Rightarrow> loadNamed E rest s' seen'))"

definition HasPrefix :: "string \<Rightarrow> string \<Rightarrow> bool" where
  "HasPrefix s p = (take (length p) s = p)"

text \<open>The second loop: the files found by the glob, but for those named \<open>_...\<close>.\<close>

fun loadMatches ::
  "('fds, 'ss) env \<Rightarrow> string list \<Rightarrow> Server \<Rightarrow> string set \<Rightarrow> error + Server \<times> string set" where
  "loadMatches E [] s seen = Inr (s, seen)"
| "loadMatches E (match # rest) s seen =
     (if HasPrefix match ''_'' then loadMatches E rest s seen
      else
        (case fs_ReadFile (s_fs s) match of
           Inl err \<Rightarrow> Inl err
         | Inr b \<Rightarrow>
             (case addFiles E s b seen of
                Inl err \<Rightarrow> Inl err
              | Inr (s', seen') \<Rightarrow> loadMatches E rest s' seen')))"

definition loadProtosets :: "('fds, 'ss) env \<Rightarrow> Server \<Rightarrow> error + Server" where
  "loadProtosets E s =
     (case loadNamed E (s_protosets s) s {} of
        Inl err \<Rightarrow> Inl err
      | Inr (s1, seen) \<Rightarrow>
          (case fs_Glob (s_fs s1) ''*.pb'' of
             Inl err \<Rightarrow> Inl err
           | Inr matches \<Rightarrow>
               (case loadMatches E matches s1 seen of
                  Inl err \<Rightarrow> Inl err
                | Inr (s2, _) \<Rightarrow> Inr s2)))"

text \<open>
  \<open>NewServer\<close>, up to the construction of the HTTP handler, which cannot fail here
  (\<open>httprule.NewServer\<close> returns no error).
\<close>

definition NewServer :: "('fds, 'ss) env \<Rightarrow> FS \<Rightarrow> Option list \<Rightarrow> error + Server" where
  "NewServer E vfs options =
     (case applyOptions options \<lparr>s_log = [], s_files = [], s_fs = vfs, s_protosets = []\<rparr> of
        Inl err \<Rightarrow> Inl err
      | Inr s \<Rightarrow>
          (case loadProtosets E s of
             Inl err \<Rightarrow> Inl err
           | Inr s' \<Rightarrow> Inr s'))"

text \<open>
  What decides the control flow of loading, read off a result of \<open>addFiles\<close>: the error,
  or the file system and the named protosets of the server with the set of paths seen.
  The registry and the log are left out.
\<close>

definition outline :: "error + Server \<times> string set \<Rightarrow> error + (FS \<times> string list) \<times> string set" where
  "outline res =
     (case res of Inl e \<Rightarrow> Inl e | Inr (s, seen) \<Rightarrow> Inr ((s_fs s, s_protosets s), seen))"

subsection \<open>\<open>lookupMethod\<close> and \<open>UnknownHandler\<close>\<close>

definition lookupMethod :: "('fds, 'ss) env \<Rightarrow> Server \<Rightarrow> string \<Rightarrow> MethodDescriptor option" where
  "lookupMethod E s name =
     (case FindDescriptorByName E (s_files s) name of
        Inl err \<Rightarrow> None
      | Inr desc \<Rightarrow> (case desc of MethodD md \<Rightarrow> Some md | _ \<Rightarrow> None))"

text \<open>
  \<open>UnknownHandler\<close>. The slice expression \<open>method[1:]\<close> panics on the empty string; on
  any other string it drops the first byte. The result is the returned \<open>error\<close>
  (\<open>None\<close> for \<open>nil\<close>) with the stream as the call left it.
\<close>

definition UnknownHandler ::
  "('fds, 'ss) env \<Rightarrow> Server \<Rightarrow> 'ss \<Rightarrow> (error option \<times> 'ss) outcome" where
  "UnknownHandler E s ss =
     (case grpc_Method E ss of
        None \<Rightarrow> Returned (Some (StatusErr Internal ''no method in stream context''), ss)
      | Some method \<Rightarrow>
          (if method = [] then Panicked ''slice bounds out of range [1:0]''
           else
             (let fullMethod = ReplaceAll (tl method) ''/'' ''.'' in
              (case lookupMethod E s fullMethod of
                 None \<Rightarrow>
                   Returned (Some (StatusErr Unimplemented (''method not found: '' @ fullMethod)), ss)
               | Some md \<Rightarrow> callMethod E s md ss))))"

subsection \<open>The registry's operations\<close>

text \<open>
  Modelled from the spec: the registry package (\<open>registry.Files\<close>) is not among the
  source files. The spec, section 4.1: "\<open>Register(fileDescriptor)\<close> -- fails with
  \<open>MissingDependency\<close> if a referenced file is not yet registered; idempotent on repeat
  registration of the same path."
\<close>

definition Register :: "Files \<Rightarrow> FileDescriptor \<Rightarrow> error + Files" where
  "Register files fd =
     (if fd_Path fd \<in> set (map fd_Path files) then Inr files
      else if \<not> set (fd_Imports fd) \<subseteq> set (map fd_Path files)
        then Inl (PlainErr ''MissingDependency'')
      else Inr (files @ [fd]))"

text \<open>
  Modelled from the spec: "\<open>FindByName(name)\<close> -- returns the descriptor or fails with
  \<open>NotFound\<close>", for the services, methods and messages of the registered files.
\<close>

definition FindByName :: "Files \<Rightarrow> string \<Rightarrow> error + Descriptor" where
  "FindByName files name =
     (let services = concat (map fd_Services files) in
      (case find (\<lambda>sd. sd_FullName sd = name) services of
         Some sd \<Rightarrow> Inr (ServiceD sd)
       | None \<Rightarrow>
           (case find (\<lambda>md. md_FullName md = name) (concat (map sd_Methods services)) of
              Some md \<Rightarrow> Inr (MethodD md)
            | None \<Rightarrow>
                (if name \<in> set (concat (map fd_Messages files)) then Inr (MessageD name)
                 else Inl (PlainErr ''NotFound'')))))"

section \<open>\<open>serve/httprule/handler.go\<close>: serving methods over HTTP\<close>

subsection \<open>HTTP rules and their interpolation\<close>

text \<open>
  The message \<open>google.api.HttpRule\<close> of the \<open>annotations\<close> package: a selector, the
  \<open>pattern\<close> oneof (unset, one of the five verbs with a path, or a custom verb), the body
  selectors and the additional bindings.
\<close>

datatype CustomHttpPattern = CustomHttpPattern (Kind: string) (Path: string)

datatype HttpRule_Pattern =
    HttpRule_Get string
  | HttpRule_Put string
  | HttpRule_Post string
  | HttpRule_Delete string
  | HttpRule_Patch string
  | HttpRule_Custom CustomHttpPattern

datatype HttpRule =
  HttpRule (Selector: string) (Pattern: "HttpRule_Pattern option") (Body: string)
    (ResponseBody: string) (AdditionalBindings: "HttpRule list")

text \<open>The verb and the path that a pattern holds.\<close>

fun patternVerbPath :: "HttpRule_Pattern \<Rightarrow> string \<times> string" where
  "patternVerbPath (HttpRule_Get p) = (''GET'', p)"
| "patternVerbPath (HttpRule_Put p) = (''PUT'', p)"
| "patternVerbPath (HttpRule_Post p) = (''POST'', p)"
| "patternVerbPath (HttpRule_Delete p) = (''DELETE'', p)"
| "patternVerbPath (HttpRule_Patch p) = (''PATCH'', p)"
| "patternVerbPath (HttpRule_Custom c) = (Kind c, Path c)"

definition interpolate :: "string \<Rightarrow> string \<Rightarrow> string \<Rightarrow> string \<Rightarrow> string" where
  "interpolate path pkg service method =
     (let path = ReplaceAll path ''{package}'' pkg;
          path = ReplaceAll path ''{service}'' service;
          path = ReplaceAll path ''{method}'' method
      in path)"

text \<open>The type switch on \<open>rules[i].Pattern\<close>; an unset pattern matches no case.\<close>

fun interpolatePattern ::
  "HttpRule_Pattern option \<Rightarrow> string \<Rightarrow> string \<Rightarrow> string \<Rightarrow> HttpRule_Pattern option" where
  "interpolatePattern None pkg service method = None"
| "interpolatePattern (Some (HttpRule_Get p)) pkg service method =
     Some (HttpRule_Get (interpolate p pkg service method))"
| "interpolatePattern (Some (HttpRule_Put p)) pkg service method =
     Some (HttpRule_Put (interpolate p pkg service method))"
| "interpolatePattern (Some (HttpRule_Post p)) pkg service method =
     Some (HttpRule_Post (interpolate p pkg service method))"
| "interpolatePattern (Some (HttpRule_Delete p)) pkg service method =
     Some (HttpRule_Delete (interpolate p pkg service method))"
| "interpolatePattern (Some (HttpRule_Patch p)) pkg service method =
     Some (HttpRule_Patch (interpolate p pkg service method))"
| "interpolatePattern (Some (HttpRule_Custom (CustomHttpPattern kind p))) pkg service method =
     Some (HttpRule_Custom (CustomHttpPattern kind (interpolate p pkg service method)))"

text \<open>
  One iteration of the loop of \<open>interpolateHTTPRules\<close>, on values: the clone of the
  template with its pattern's path interpolated.
\<close>

fun interpolateRule :: "HttpRule \<Rightarrow> string \<Rightarrow> string \<Rightarrow> string \<Rightarrow> HttpRule" where
  "interpolateRule (HttpRule selector pattern body responseBody bindings) pkg service method =
     HttpRule selector (interpolatePattern pattern pkg service method) body responseBody bindings"

fun interpolateHTTPRules ::
  "HttpRule list \<Rightarrow> string \<Rightarrow> string \<Rightarrow> string \<Rightarrow> HttpRule list" where
  "interpolateHTTPRules [] pkg service method = []"
| "interpolateHTTPRules (tmpl # httpRuleTemplates) pkg service method =
     interpolateRule tmpl pkg service method
       # interpolateHTTPRules httpRuleTemplates pkg service method"

subsection \<open>Requests, responses and messages\<close>

text \<open>
  An \<open>http.Header\<close> maps a canonical key to its values; \<open>Get\<close> gives the first value or
  the empty string, \<open>Set\<close> replaces the values by one.
\<close>

type_synonym Header = "string \<rightharpoonup> string list"

definition Header_Get :: "Header \<Rightarrow> string \<Rightarrow> string" where
  "Header_Get h key = (case h key of None \<Rightarrow> [] | Some [] \<Rightarrow> [] | Some (v # _) \<Rightarrow> v)"

definition Header_Set :: "Header \<Rightarrow> string \<Rightarrow> string \<Rightarrow> Header" where
  "Header_Set h key v = h(key \<mapsto> [v])"

record Request =
  req_Method :: string
  req_Path :: string
  req_Header :: Header
  req_Body :: string

text \<open>
  An \<open>http.ResponseWriter\<close> as the state of the response: its header map, the status
  code once written, and the body written so far. \<open>WriteHeader\<close> takes effect once;
  \<open>Write\<close> writes status 200 first when none was written. The error that \<open>Write\<close> may
  return is only logged by \<open>writeResp\<close> and \<open>writeError\<close> and is not modelled.
\<close>

record ResponseWriter =
  rw_Header :: Header
  rw_Status :: "nat option"
  rw_Body :: string

definition SetHeader :: "ResponseWriter \<Rightarrow> string \<Rightarrow> string \<Rightarrow> ResponseWriter" where
  "SetHeader w key v = w\<lparr>rw_Header := Header_Set (rw_Header w) key v\<rparr>"

definition WriteHeader :: "ResponseWriter \<Rightarrow> nat \<Rightarrow> ResponseWriter" where
  "WriteHeader w statusCode =
     (if rw_Status w = None then w\<lparr>rw_Status := Some statusCode\<rparr> else w)"

definition Write :: "ResponseWriter \<Rightarrow> string \<Rightarrow> ResponseWriter" where
  "Write w b = (let w' = WriteHeader w 200 in w'\<lparr>rw_Body := rw_Body w' @ b\<rparr>)"

text \<open>
  A \<open>proto.Message\<close>: a dynamic message (its descriptor's name and its fields), or the
  \<open>Status\<close> message that \<open>status.Proto\<close> gives.
\<close>

datatype Message =
    DynamicMessage string "(string \<times> string) list"
  | StatusMessage Code string

text \<open>\<open>status.Convert\<close>: a status error gives its status, any other error \<open>Unknown\<close>.\<close>

fun status_Convert :: "error \<Rightarrow> Code \<times> string" where
  "status_Convert (StatusErr c msg) = (c, msg)"
| "status_Convert (PlainErr msg) = (Unknown, msg)"

definition status_Proto :: "Code \<times> string \<Rightarrow> Message" where
  "status_Proto st = StatusMessage (fst st) (snd st)"

type_synonym vars = "(string \<times> string) list"

text \<open>
  What \<open>handler.go\<close> uses from the other files of its package and from libraries:
  \<open>MatchRequest\<close> (\<open>None\<close> for a \<open>nil\<close> map), \<open>DecodeRequest\<close> (the error and the message as
  it leaves it), \<open>Collect\<close>, \<open>HTTPStatusFromCode\<close>, the two content type constants,
  \<open>mime.ParseMediaType\<close> (its media type result) and the two marshalers (applied to a
  \<open>proto.Message\<close> interface value, \<open>None\<close> when it is \<open>nil\<close>).
\<close>

record henv =
  MatchRequest :: "HttpRule \<Rightarrow> Request \<Rightarrow> vars option"
  DecodeRequest :: "HttpRule \<Rightarrow> vars \<Rightarrow> Request \<Rightarrow> Message \<Rightarrow> error option \<times> Message"
  Collect :: "MethodDescriptor \<Rightarrow> HttpRule list"
  HTTPStatusFromCode :: "Code \<Rightarrow> nat"
  ContentTypeJSON :: string
  ContentTypeBinaryProto :: string
  mime_ParseMediaType :: "string \<Rightarrow> error + string"
  proto_Marshal :: "Message option \<Rightarrow> error + string"
  protojson_Marshal :: "Message option \<Rightarrow> error + string"

subsection \<open>The rule table\<close>

record httpMethod =
  desc :: MethodDescriptor
  rule :: HttpRule

text \<open>The innermost loop of \<open>loadHTTPRules\<close>: \<open>for _, r := range rules\<close>.\<close>

fun appendRules :: "MethodDescriptor \<Rightarrow> HttpRule list \<Rightarrow> httpMethod list \<Rightarrow> httpMethod list" where
  "appendRules md [] httpMethods = httpMethods"
| "appendRules md (r # rules) httpMethods =
     appendRules md rules (httpMethods @ [\<lparr>desc = md, rule = r\<rparr>])"

text \<open>The rules of one method: those it declares, or else the interpolated templates.\<close>

definition methodRules ::
  "henv \<Rightarrow> HttpRule list \<Rightarrow> string \<Rightarrow> string \<Rightarrow> MethodDescriptor \<Rightarrow> HttpRule list" where
  "methodRules H httpRuleTemplates pkg service md =
     (let rules = Collect H md in
      if length rules = 0 \<and> length httpRuleTemplates \<noteq> 0
      then interpolateHTTPRules httpRuleTemplates pkg service (md_Name md)
      else rules)"

text \<open>The loop over the methods of a service.\<close>

fun loadMethods ::
  "henv \<Rightarrow> HttpRule list \<Rightarrow> string \<Rightarrow> string \<Rightarrow> MethodDescriptor list \<Rightarrow>
   httpMethod list \<Rightarrow> httpMethod list" where
  "loadMethods H tmpls pkg service [] httpMethods = httpMethods"
| "loadMethods H tmpls pkg service (md # mds) httpMethods =
     loadMethods H tmpls pkg service mds
       (appendRules md (methodRules H tmpls pkg service md) httpMethods)"

text \<open>The loop over the services of a file.\<close>

fun loadServices ::
  "henv \<Rightarrow> HttpRule list \<Rightarrow> string \<Rightarrow> ServiceDescriptor list \<Rightarrow>
   httpMethod list \<Rightarrow> httpMethod list" where
  "loadServices H tmpls pkg [] httpMethods = httpMethods"
| "loadServices H tmpls pkg (sd # sds) httpMethods =
     loadServices H tmpls pkg sds
       (loadMethods H tmpls pkg (sd_Name sd) (sd_Methods sd) httpMethods)"

text \<open>\<open>files.RangeFiles\<close> with a callback that always returns \<open>true\<close>.\<close>

fun loadFiles ::
  "henv \<Rightarrow> HttpRule list \<Rightarrow> FileDescriptor list \<Rightarrow> httpMethod list \<Rightarrow> httpMethod list" where
  "loadFiles H tmpls [] httpMethods = httpMethods"
| "loadFiles H tmpls (fd # fds) httpMethods =
     loadFiles H tmpls fds (loadServices H tmpls (fd_Package fd) (fd_Services fd) httpMethods)"

definition loadHTTPRules :: "henv \<Rightarrow> Files \<Rightarrow> HttpRule list \<Rightarrow> httpMethod list" where
  "loadHTTPRules H files httpRuleTemplates = loadFiles H httpRuleTemplates files []"

subsection \<open>The stream adapter \<open>serverStream\<close>\<close>

text \<open>
  The fields that \<open>SendMsg\<close>, \<open>RecvMsg\<close>, \<open>writeResp\<close> and \<open>writeError\<close> read or write.
  \<open>ss_resp\<close> is \<open>None\<close> while \<open>s.resp\<close> is \<open>nil\<close>. The header and trailer metadata are
  stored by \<open>SetHeader\<close> and \<open>SetTrailer\<close> and never read; they and the logger are left
  out.
\<close>

record serverStream =
  ss_req :: Request
  ss_respWriter :: ResponseWriter
  ss_rule :: HttpRule
  ss_vars :: vars
  ss_acceptType :: string
  ss_resp :: "Message option"

text \<open>
  \<open>SendMsg\<close>, for an argument that is a \<open>proto.Message\<close>. The guard on \<open>s.resp\<close> panics;
  no path returns an error.
\<close>

definition SendMsg :: "serverStream \<Rightarrow> Message \<Rightarrow> (error option \<times> serverStream) outcome" where
  "SendMsg s m =
     (if ss_resp s \<noteq> None then Panicked ''only one response expected!''
      else Returned (None, s\<lparr>ss_resp := Some m\<rparr>))"

definition getAcceptType :: "henv \<Rightarrow> Request \<Rightarrow> error + string" where
  "getAcceptType H r =
     (let accept = Header_Get (req_Header r) ''Accept'';
          accept = (if accept = [] then Header_Get (req_Header r) ''Content-Type'' else accept)
      in
        (case (if accept \<noteq> [] \<and> accept \<noteq> ''*/*'' then mime_ParseMediaType H accept
               else Inr (ContentTypeJSON H)) of
           Inl err \<Rightarrow> Inl err
         | Inr mediaType \<Rightarrow>
             (if mediaType \<noteq> ContentTypeBinaryProto H \<and> mediaType \<noteq> ContentTypeJSON H
              then Inl (PlainErr (''invalid Accept content type '' @ accept))
              else Inr mediaType)))"

text \<open>
  \<open>RecvMsg\<close> gives the error, the stream and the message \<open>m\<close> as the call leaves them.
  On an error of \<open>getAcceptType\<close> the field \<open>acceptType\<close> is assigned the empty string
  and the call returns before the type assertion and before \<open>DecodeRequest\<close>. The type
  assertion \<open>m.(*dynamicpb.Message)\<close> panics on any other message.
\<close>

definition RecvMsg ::
  "henv \<Rightarrow> serverStream \<Rightarrow> Message \<Rightarrow> (error option \<times> serverStream \<times> Message) outcome" where
  "RecvMsg H s m =
     (case getAcceptType H (ss_req s) of
        Inl err \<Rightarrow> Returned (Some err, s\<lparr>ss_acceptType := []\<rparr>, m)
      | Inr mediaType \<Rightarrow>
          (let s' = s\<lparr>ss_acceptType := mediaType\<rparr> in
           (case m of
              DynamicMessage _ _ \<Rightarrow>
                (case DecodeRequest H (ss_rule s') (ss_vars s') (ss_req s') m of
                   (err, pb) \<Rightarrow> Returned (err, s', pb))
            | StatusMessage _ _ \<Rightarrow> Panicked ''interface conversion'')))"

definition marshalerForContentType ::
  "henv \<Rightarrow> string \<Rightarrow> (Message option \<Rightarrow> error + string) outcome" where
  "marshalerForContentType H mediaType =
     (if mediaType = ContentTypeBinaryProto H then Returned (proto_Marshal H)
      else if mediaType = ContentTypeJSON H then Returned (protojson_Marshal H)
      else Panicked ''invalid content type'')"

definition errMarshalFailed :: string where
  "errMarshalFailed = ''{\"code\": 13, \"message\": \"failed to marshal error message\"}''"

definition StatusInternalServerError :: nat where
  "StatusInternalServerError = 500"

text \<open>\<open>writeError\<close> and \<open>writeResp\<close> give the response writer as they leave it.\<close>

definition writeError :: "henv \<Rightarrow> serverStream \<Rightarrow> error \<Rightarrow> ResponseWriter outcome" where
  "writeError H s err =
     (let w = ss_respWriter s;
          st = status_Convert err
      in
        (case (if ss_acceptType s \<noteq> []
               then (case marshalerForContentType H (ss_acceptType s) of
                       Panicked p \<Rightarrow> Panicked p
                     | Returned marshaler \<Rightarrow>
                         Returned (marshaler, SetHeader w ''Content-Type'' (ss_acceptType s)))
               else Returned (protojson_Marshal H, w)) of
           Panicked p \<Rightarrow> Panicked p
         | Returned (marshaler, w') \<Rightarrow>
             (case marshaler (Some (status_Proto st)) of
                Inl _ \<Rightarrow> Returned (Write (WriteHeader w' StatusInternalServerError) errMarshalFailed)
              | Inr buf \<Rightarrow> Returned (Write (WriteHeader w' (HTTPStatusFromCode H (fst st))) buf))))"

definition writeResp :: "henv \<Rightarrow> serverStream \<Rightarrow> ResponseWriter outcome" where
  "writeResp H s =
     (case marshalerForContentType H (ss_acceptType s) of
        Panicked p \<Rightarrow> Panicked p
      | Returned marshaler \<Rightarrow>
          (case marshaler (ss_resp s) of
             Inl err \<Rightarrow> writeError H s err
           | Inr msg \<Rightarrow> Returned (Write (ss_respWriter s) msg)))"

subsection \<open>The handler\<close>

text \<open>
  A \<open>grpc.StreamHandler\<close> applied to the adapter: it is given the method's full name and
  the stream, and returns its error with the stream as it left it, or panics. An
  \<open>http.Handler\<close> likewise maps the response writer and the request to the response.
\<close>

type_synonym StreamHandler = "string \<Rightarrow> serverStream \<Rightarrow> (error option \<times> serverStream) outcome"

type_synonym http_Handler = "ResponseWriter \<Rightarrow> Request \<Rightarrow> ResponseWriter outcome"

datatype Logger = Logger string

record Handler =
  httpMethods :: "httpMethod list"
  grpcHandler :: StreamHandler
  h_log :: "Logger option"
  ruleTemplates :: "HttpRule list"
  defaultHandler :: http_Handler

text \<open>
  \<open>http.NotFoundHandler\<close> of the standard library: it replies \<open>404 page not found\<close>
  with status 404.
\<close>

definition NotFoundHandler :: http_Handler where
  "NotFoundHandler w r =
     Returned
       (Write
          (WriteHeader
             (SetHeader (SetHeader w ''Content-Type'' ''text/plain; charset=utf-8'')
                ''X-Content-Type-Options'' ''nosniff'')
             404)
          (''404 page not found'' @ [CHR 0x0A]))"

type_synonym httprule_Option = "Handler \<Rightarrow> error + Handler"

definition httprule_WithLogger :: "Logger \<Rightarrow> httprule_Option" where
  "httprule_WithLogger l h = Inr (h\<lparr>h_log := Some l\<rparr>)"

definition WithRuleTemplates :: "HttpRule list \<Rightarrow> httprule_Option" where
  "WithRuleTemplates httpRuleTemplates h = Inr (h\<lparr>ruleTemplates := httpRuleTemplates\<rparr>)"

definition WithDefaultHandler :: "http_Handler \<Rightarrow> httprule_Option" where
  "WithDefaultHandler next h = Inr (h\<lparr>defaultHandler := next\<rparr>)"

fun applyHandlerOptions :: "httprule_Option list \<Rightarrow> Handler \<Rightarrow> error + Handler" where
  "applyHandlerOptions [] h = Inr h"
| "applyHandlerOptions (opt # options) h =
     (case opt h of Inl err \<Rightarrow> Inl err | Inr h' \<Rightarrow> applyHandlerOptions options h')"

definition NewHandler ::
  "henv \<Rightarrow> Files \<Rightarrow> StreamHandler \<Rightarrow> httprule_Option list \<Rightarrow> error + Handler" where
  "NewHandler H files handler options =
     (case applyHandlerOptions options
             \<lparr>httpMethods = [], grpcHandler = handler, h_log = None, ruleTemplates = [],
              defaultHandler = NotFoundHandler\<rparr> of
        Inl err \<Rightarrow> Inl err
      | Inr h \<Rightarrow>
          (let h = (if h_log h = None then h\<lparr>h_log := Some (Logger ''stderr'')\<rparr> else h)
           in Inr (h\<lparr>httpMethods := loadHTTPRules H files (ruleTemplates h)\<rparr>)))"

definition serveHTTPMethod ::
  "henv \<Rightarrow> Handler \<Rightarrow> httpMethod \<Rightarrow> vars \<Rightarrow> ResponseWriter \<Rightarrow> Request \<Rightarrow> ResponseWriter outcome" where
  "serveHTTPMethod H h m vs w r =
     (let ss = \<lparr>ss_req = r, ss_respWriter = w, ss_rule = rule m, ss_vars = vs,
                ss_acceptType = [], ss_resp = None\<rparr>
      in
        (case grpcHandler h (md_FullName (desc m)) ss of
           Panicked p \<Rightarrow> Panicked p
         | Returned (Some err, ss') \<Rightarrow> writeError H ss' err
         | Returned (None, ss') \<Rightarrow> writeResp H ss'))"

text \<open>The loop of \<open>ServeHTTP\<close> over \<open>h.httpMethods\<close>, and the fall-through after it.\<close>

fun serveFirstMatch ::
  "henv \<Rightarrow> Handler \<Rightarrow> httpMethod list \<Rightarrow> ResponseWriter \<Rightarrow> Request \<Rightarrow> ResponseWriter outcome" where
  "serveFirstMatch H h [] w r = defaultHandler h w r"
| "serveFirstMatch H h (method # rest) w r =
     (case MatchRequest H (rule method) r of
        Some vs \<Rightarrow> serveHTTPMethod H h method vs w r
      | None \<Rightarrow> serveFirstMatch H h rest w r)"

definition ServeHTTP :: "henv \<Rightarrow> Handler \<Rightarrow> ResponseWriter \<Rightarrow> Request \<Rightarrow> ResponseWriter outcome" where
  "ServeHTTP H h w r = serveFirstMatch H h (httpMethods h) w r"

text \<open>What a handler left in the response: the status and the body, unless it panicked.\<close>

definition response_of :: "ResponseWriter outcome \<Rightarrow> (nat option \<times> string) option" where
  "response_of res =
     (case res of Returned w \<Rightarrow> Some (rw_Status w, rw_Body w) | Panicked p \<Rightarrow> None)"

section \<open>The dispatcher behind the HTTP handler\<close>

text \<open>
  Modelled from the spec: the stream handler that \<open>NewHandler\<close> is given
  (\<open>Server.callMethod\<close>) is not among the source files. The spec, section 4.2:
  "Construct a zero-valued request of the method's input type; receive exactly one
  inbound value [...]. Invoke the Evaluator with (descriptor, request). On success, send
  exactly one response value and terminate the call with an OK status; on Evaluator
  failure, terminate with the Evaluator-supplied status code and message." A failed
  receive ends the call with its error. The result is paired with the invocations of the
  Evaluator, so that a call in which it did not run is told apart.
\<close>

type_synonym Evaluator = "string \<Rightarrow> Message \<Rightarrow> (Code \<times> string) + Message"

definition dispatch ::
  "henv \<Rightarrow> (string \<Rightarrow> Message) \<Rightarrow> Evaluator \<Rightarrow> string \<Rightarrow> serverStream \<Rightarrow>
   (error option \<times> serverStream) outcome \<times> (string \<times> Message) list" where
  "dispatch H newRequest Evaluate name ss =
     (case RecvMsg H ss (newRequest name) of
        Panicked p \<Rightarrow> (Panicked p, [])
      | Returned (Some err, ss', _) \<Rightarrow> (Returned (Some err, ss'), [])
      | Returned (None, ss', req) \<Rightarrow>
          (case Evaluate name req of
             Inl (c, msg) \<Rightarrow> (Returned (Some (StatusErr c msg), ss'), [(name, req)])
           | Inr resp \<Rightarrow> (SendMsg ss' resp, [(name, req)])))"

text \<open>
  Modelled from the spec: \<open>HTTPStatusFromCode\<close> is not among the source files. The
  spec, section 6, gives its table.
\<close>

fun HTTPStatusFromCode_table :: "Code \<Rightarrow> nat" where
  "HTTPStatusFromCode_table OK = 200"
| "HTTPStatusFromCode_table Canceled = 499"
| "HTTPStatusFromCode_table Unknown = 500"
| "HTTPStatusFromCode_table InvalidArgument = 400"
| "HTTPStatusFromCode_table DeadlineExceeded = 504"
| "HTTPStatusFromCode_table NotFound = 404"
| "HTTPStatusFromCode_table AlreadyExists = 409"
| "HTTPStatusFromCode_table PermissionDenied = 403"
| "HTTPStatusFromCode_table Unauthenticated = 401"
| "HTTPStatusFromCode_table ResourceExhausted = 429"
| "HTTPStatusFromCode_table FailedPrecondition = 400"
| "HTTPStatusFromCode_table Aborted = 409"
| "HTTPStatusFromCode_table OutOfRange = 400"
| "HTTPStatusFromCode_table Unimplemented = 501"
| "HTTPStatusFromCode_table Internal = 500"
| "HTTPStatusFromCode_table Unavailable = 503"
| "HTTPStatusFromCode_table DataLoss = 500"

section \<open>\<open>interpolateHTTPRules\<close> on the heap\<close>

text \<open>
  \<open>interpolateHTTPRules\<close> receives pointers to the templates and writes through pointers:
  \<open>v.Get = ...\<close> writes the oneof wrapper that the field \<open>Pattern\<close> of the rule points to,
  and \<open>v.Custom.Path = ...\<close> writes the \<open>CustomHttpPattern\<close> that the wrapper points to.
  The heap holds these three kinds of object. An address is an index into the heap, and
  an allocation appends an object. The additional bindings of a rule, which the function
  neither reads nor writes, are kept in the rule object as values.
\<close>

type_synonym addr = nat

datatype wrapper =
    W_Get string
  | W_Put string
  | W_Post string
  | W_Delete string
  | W_Patch string
  | W_Custom addr

datatype object =
    RuleObj string "addr option" string string "HttpRule list"
  | WrapperObj wrapper
  | CustomObj string string

type_synonym heap = "object list"

definition deref :: "heap \<Rightarrow> addr \<Rightarrow> object option" where
  "deref h a = (if a < length h then Some (h ! a) else None)"

definition alloc :: "heap \<Rightarrow> object \<Rightarrow> heap \<times> addr" where
  "alloc h obj = (h @ [obj], length h)"

text \<open>
  \<open>proto.Clone\<close> on a pointer to a rule returns a deep copy: a new rule object, and a
  new object for every object the rule points to. \<open>None\<close> stands for a pointer that does
  not lead to an object of the expected kind, which Go's types exclude.
\<close>

definition Clone :: "heap \<Rightarrow> addr \<Rightarrow> (heap \<times> addr) option" where
  "Clone h a =
     (case deref h a of
        Some (RuleObj selector None body responseBody bindings) \<Rightarrow>
          Some (alloc h (RuleObj selector None body responseBody bindings))
      | Some (RuleObj selector (Some pa) body responseBody bindings) \<Rightarrow>
          (case deref h pa of
             Some (WrapperObj (W_Custom ca)) \<Rightarrow>
               (case deref h ca of
                  Some (CustomObj kind path) \<Rightarrow>
                    (let (h1, ca') = alloc h (CustomObj kind path);
                         (h2, pa') = alloc h1 (WrapperObj (W_Custom ca'))
                     in Some (alloc h2 (RuleObj selector (Some pa') body responseBody bindings)))
                | _ \<Rightarrow> None)
           | Some (WrapperObj w) \<Rightarrow>
               (let (h1, pa') = alloc h (WrapperObj w)
                in Some (alloc h1 (RuleObj selector (Some pa') body responseBody bindings)))
           | _ \<Rightarrow> None)
      | _ \<Rightarrow> None)"

text \<open>The write of one case of the type switch, on the wrapper \<open>v\<close>.\<close>

fun interpolateWrapper :: "wrapper \<Rightarrow> string \<Rightarrow> string \<Rightarrow> string \<Rightarrow> wrapper" where
  "interpolateWrapper (W_Get p) pkg service method = W_Get (interpolate p pkg service method)"
| "interpolateWrapper (W_Put p) pkg service method = W_Put (interpolate p pkg service method)"
| "interpolateWrapper (W_Post p) pkg service method = W_Post (interpolate p pkg service method)"
| "interpolateWrapper (W_Delete p) pkg service method = W_Delete (interpolate p pkg service method)"
| "interpolateWrapper (W_Patch p) pkg service method = W_Patch (interpolate p pkg service method)"
| "interpolateWrapper (W_Custom ca) pkg service method = W_Custom ca"

text \<open>
  The type switch on \<open>rules[i].Pattern\<close> for the rule at address \<open>ra\<close>: the five verb
  cases write the wrapper, the custom case writes the pattern behind it, and an unset
  pattern writes nothing.
\<close>

definition interpolateAt :: "heap \<Rightarrow> addr \<Rightarrow> string \<Rightarrow> string \<Rightarrow> string \<Rightarrow> heap option" where
  "interpolateAt h ra pkg service method =
     (case deref h ra of
        Some (RuleObj selector None body responseBody bindings) \<Rightarrow> Some h
      | Some (RuleObj selector (Some pa) body responseBody bindings) \<Rightarrow>
          (case deref h pa of
             Some (WrapperObj (W_Custom ca)) \<Rightarrow>
               (case deref h ca of
                  Some (CustomObj kind path) \<Rightarrow>
                    Some (h[ca := CustomObj kind (interpolate path pkg service method)])
                | _ \<Rightarrow> None)
           | Some (WrapperObj w) \<Rightarrow>
               Some (h[pa := WrapperObj (interpolateWrapper w pkg service method)])
           | _ \<Rightarrow> None)
      | _ \<Rightarrow> None)"

text \<open>
  The loop of \<open>interpolateHTTPRules\<close> over the pointers to the templates: clone, then
  write the clone. The result is the heap and the pointers \<open>rules\<close>.
\<close>

fun interpolateHTTPRules_heap ::
  "heap \<Rightarrow> addr list \<Rightarrow> string \<Rightarrow> string \<Rightarrow> string \<Rightarrow> (heap \<times> addr list) option" where
  "interpolateHTTPRules_heap h [] pkg service method = Some (h, [])"
| "interpolateHTTPRules_heap h (tmpl # httpRuleTemplates) pkg service method =
     (case Clone h tmpl of
        None \<Rightarrow> None
      | Some (h1, r) \<Rightarrow>
          (case interpolateAt h1 r pkg service method of
             None \<Rightarrow> None
           | Some h2 \<Rightarrow>
               (case interpolateHTTPRules_heap h2 httpRuleTemplates pkg service method of
                  None \<Rightarrow> None
                | Some (h3, rules) \<Rightarrow> Some (h3, r # rules))))"

text \<open>
  The calls that \<open>loadHTTPRules\<close> makes for the methods without a rule of their own, one
  after the other on the same templates, each with its package, service and method.
\<close>

fun interpolateForMethods ::
  "heap \<Rightarrow> addr list \<Rightarrow> (string \<times> string \<times> string) list \<Rightarrow> (heap \<times> addr list list) option" where
  "interpolateForMethods h tmpls [] = Some (h, [])"
| "interpolateForMethods h tmpls ((pkg, service, method) # calls) =
     (case interpolateHTTPRules_heap h tmpls pkg service method of
        None \<Rightarrow> None
      | Some (h1, rules) \<Rightarrow>
          (case interpolateForMethods h1 tmpls calls of
             None \<Rightarrow> None
           | Some (h2, rest) \<Rightarrow> Some (h2, rules # rest)))"

text \<open>The message that a pointer to a rule stands for: the rule with what it points to.\<close>

definition ruleAt :: "heap \<Rightarrow> addr \<Rightarrow> HttpRule option" where
  "ruleAt h a =
     (case deref h a of
        Some (RuleObj selector None body responseBody bindings) \<Rightarrow>
          Some (HttpRule selector None body responseBody bindings)
      | Some (RuleObj selector (Some pa) body responseBody bindings) \<Rightarrow>
          (case deref h pa of
             Some (WrapperObj (W_Get p)) \<Rightarrow>
               Some (HttpRule selector (Some (HttpRule_Get p)) body responseBody bindings)
           | Some (WrapperObj (W_Put p)) \<Rightarrow>
               Some (HttpRule selector (Some (HttpRule_Put p)) body responseBody bindings)
           | Some (WrapperObj (W_Post p)) \<Rightarrow>
               Some (HttpRule selector (Some (HttpRule_Post p)) body responseBody bindings)
           | Some (WrapperObj (W_Delete p)) \<Rightarrow>
               Some (HttpRule selector (Some (HttpRule_Delete p)) body responseBody bindings)
           | Some (WrapperObj (W_Patch p)) \<Rightarrow>
               Some (HttpRule selector (Some (HttpRule_Patch p)) body responseBody bindings)
           | Some (WrapperObj (W_Custom ca)) \<Rightarrow>
               (case deref h ca of
                  Some (CustomObj kind path) \<Rightarrow>
                    Some (HttpRule selector (Some (HttpRule_Custom (CustomHttpPattern kind path)))
                            body responseBody bindings)
                | _ \<Rightarrow> None)
           | _ \<Rightarrow> None)
      | _ \<Rightarrow> None)"

text \<open>
  The objects reached from a pointer to a rule, read at once: a rule with no pattern, a
  rule with the wrapper of one of the five verbs, or a rule with the custom wrapper and
  the pattern behind it. \<open>None\<close> when a pointer on the way leads to no such object.
\<close>

datatype shape =
    Unset string string string "HttpRule list"
  | Verb string addr wrapper string string "HttpRule list"
  | CustomVerb string addr addr string string string string "HttpRule list"

definition shapeAt :: "heap \<Rightarrow> addr \<Rightarrow> shape option" where
  "shapeAt h a =
     (case deref h a of
        Some (RuleObj selector None body responseBody bindings) \<Rightarrow>
          Some (Unset selector body responseBody bindings)
      | Some (RuleObj selector (Some pa) body responseBody bindings) \<Rightarrow>
          (case deref h pa of
             Some (WrapperObj (W_Custom ca)) \<Rightarrow>
               (case deref h ca of
                  Some (CustomObj kind path) \<Rightarrow>
                    Some (CustomVerb selector pa ca kind path body responseBody bindings)
                | _ \<Rightarrow> None)
           | Some (WrapperObj w) \<Rightarrow> Some (Verb selector pa w body responseBody bindings)
           | _ \<Rightarrow> None)
      | _ \<Rightarrow> None)"

text \<open>The message that a shape stands for; a verb shape never holds the custom wrapper.\<close>

fun shapeRule :: "shape \<Rightarrow> HttpRule" where
  "shapeRule (Unset sel body rb bs) = HttpRule sel None body rb bs"
| "shapeRule (Verb sel pa (W_Get p) body rb bs) = HttpRule sel (Some (HttpRule_Get p)) body rb bs"
| "shapeRule (Verb sel pa (W_Put p) body rb bs) = HttpRule sel (Some (HttpRule_Put p)) body rb bs"
| "shapeRule (Verb sel pa (W_Post p) body rb bs) = HttpRule sel (Some (HttpRule_Post p)) body rb bs"
| "shapeRule (Verb sel pa (W_Delete p) body rb bs) = HttpRule sel (Some (HttpRule_Delete p)) body rb bs"
| "shapeRule (Verb sel pa (W_Patch p) body rb bs) = HttpRule sel (Some (HttpRule_Patch p)) body rb bs"
| "shapeRule (Verb sel pa (W_Custom ca) body rb bs) = HttpRule sel None body rb bs"
| "shapeRule (CustomVerb sel pa ca kind path body rb bs) =
     HttpRule sel (Some (HttpRule_Custom (CustomHttpPattern kind path))) body rb bs"

section \<open>Example inputs\<close>

text \<open>
  A registry with one file, \<open>greet.proto\<close>, declaring the service \<open>pkg.Greeter\<close> with
  the method \<open>Hello\<close>; an environment in which the registry behaves as the spec says and
  a stream is represented by the method name in its context.
\<close>

definition greetFile :: FileDescriptor where
  "greetFile =
     \<lparr>fd_Path = ''greet.proto'', fd_Package = ''pkg'', fd_Imports = [],
      fd_Services =
        [\<lparr>sd_Name = ''Greeter'', sd_FullName = ''pkg.Greeter'',
          sd_Methods = [\<lparr>md_Name = ''Hello'', md_FullName = ''pkg.Greeter.Hello''\<rparr>]\<rparr>],
      fd_Messages = [''pkg.HelloRequest'']\<rparr>"

definition exampleEnv :: "(FileDescriptor list, string) env" where
  "exampleEnv =
     \<lparr>os_ReadFile =
        (\<lambda>name. if name = ''greet.pb'' then Inr ''greet'' else Inl (PlainErr ''no such file'')),
      proto_Unmarshal =
        (\<lambda>b. if b = ''greet'' then Inr [greetFile] else Inl (PlainErr ''cannot parse'')),
      protodesc_NewFiles = Inr,
      RegisterFile = Register,
      FindDescriptorByName = FindByName,
      grpc_Method = Some,
      callMethod = (\<lambda>s md ss. Returned (None, ss))\<rparr>"

definition emptyFS :: FS where
  "emptyFS = \<lparr>fs_Glob = (\<lambda>p. Inr []), fs_ReadFile = (\<lambda>n. Inl (PlainErr ''no such file''))\<rparr>"

definition exampleServer :: Server where
  "exampleServer = \<lparr>s_log = [], s_files = [greetFile], s_fs = emptyFS, s_protosets = []\<rparr>"

text \<open>
  An environment for the HTTP handler. A rule matches a request when its verb is the
  request's method and its path is the request's path or the wildcard \<open>/**\<close>; the media
  type of a header value is the part before the first semicolon; the JSON marshaler
  fails on the dynamic message named \<open>bad\<close>, the binary marshaler on every message.
\<close>

definition exampleMatch :: "HttpRule \<Rightarrow> Request \<Rightarrow> vars option" where
  "exampleMatch rl r =
     (case Pattern rl of
        None \<Rightarrow> None
      | Some p \<Rightarrow>
          (if fst (patternVerbPath p) = req_Method r
              \<and> (snd (patternVerbPath p) = req_Path r \<or> snd (patternVerbPath p) = ''/**'')
           then Some [] else None))"

fun exampleJSON :: "Message option \<Rightarrow> error + string" where
  "exampleJSON None = Inr ''{}''"
| "exampleJSON (Some (StatusMessage c msg)) = Inr (''{\"message\": \"'' @ msg @ ''\"}'')"
| "exampleJSON (Some (DynamicMessage name fs)) =
     (if name = ''bad'' then Inl (PlainErr ''invalid UTF-8'') else Inr (''{\"@type\": \"'' @ name @ ''\"}''))"

definition exampleHenv :: henv where
  "exampleHenv =
     \<lparr>MatchRequest = exampleMatch,
      DecodeRequest = (\<lambda>rl vs r m. (None, m)),
      Collect = (\<lambda>md. []),
      HTTPStatusFromCode = HTTPStatusFromCode_table,
      ContentTypeJSON = ''application/json'',
      ContentTypeBinaryProto = ''application/x-protobuf'',
      mime_ParseMediaType = (\<lambda>v. Inr (takeWhile (\<lambda>c. c \<noteq> CHR '';'') v)),
      proto_Marshal = (\<lambda>m. Inl (PlainErr ''required field not set'')),
      protojson_Marshal = exampleJSON\<rparr>"

definition emptyResponse :: ResponseWriter where
  "emptyResponse = \<lparr>rw_Header = Map.empty, rw_Status = None, rw_Body = []\<rparr>"

definition getRequest :: "string \<Rightarrow> (string \<times> string list) list \<Rightarrow> Request" where
  "getRequest path hdr =
     \<lparr>req_Method = ''GET'', req_Path = path, req_Header = map_of hdr, req_Body = []\<rparr>"

definition exampleStream :: "Request \<Rightarrow> serverStream" where
  "exampleStream r =
     \<lparr>ss_req = r, ss_respWriter = emptyResponse,
      ss_rule = HttpRule [] (Some (HttpRule_Get ''/v1/hello'')) [] [] [],
      ss_vars = [], ss_acceptType = [], ss_resp = None\<rparr>"

text \<open>Requests for the content negotiation, and the stream of a call to \<open>Hello\<close>.\<close>

definition htmlRequest :: Request where
  "htmlRequest =
     getRequest ''/v1/hello'' [(''Accept'', [''text/html'']), (''Content-Type'', [''application/json''])]"

definition protoRequest :: Request where
  "protoRequest =
     getRequest ''/v1/hello'' [(''Content-Type'', [''application/x-protobuf; charset=utf-8''])]"

definition jsonRequest :: Request where
  "jsonRequest =
     getRequest ''/v1/hello''
       [(''Accept'', [''application/json'']), (''Content-Type'', [''application/x-protobuf''])]"

definition helloReply :: Message where
  "helloReply = DynamicMessage ''pkg.HelloReply'' [(''text'', ''hello'')]"

definition otherReply :: Message where
  "otherReply = DynamicMessage ''pkg.HelloReply'' [(''text'', ''again'')]"

definition sentStream :: serverStream where
  "sentStream = (exampleStream (getRequest ''/v1/hello'' []))\<lparr>ss_resp := Some helloReply\<rparr>"

text \<open>A stream handler that sends two responses.\<close>

definition sendTwice :: StreamHandler where
  "sendTwice name ss =
     (case SendMsg ss helloReply of
        Panicked p \<Rightarrow> Panicked p
      | Returned (_, ss') \<Rightarrow> SendMsg ss' otherReply)"

definition helloMethod :: httpMethod where
  "helloMethod =
     \<lparr>desc = \<lparr>md_Name = ''Hello'', md_FullName = ''pkg.Greeter.Hello''\<rparr>,
      rule = HttpRule [] (Some (HttpRule_Get ''/v1/hello'')) [] [] []\<rparr>"

definition twiceHandler :: Handler where
  "twiceHandler =
     \<lparr>httpMethods = [helloMethod], grpcHandler = sendTwice, h_log = None,
      ruleTemplates = [], defaultHandler = NotFoundHandler\<rparr>"

text \<open>
  A call negotiated as JSON whose response the JSON marshaler rejects, and a call
  negotiated as binary, for which the binary marshaler rejects every message.
\<close>

definition badStream :: serverStream where
  "badStream =
     (exampleStream (getRequest ''/v1/hello'' []))
       \<lparr>ss_acceptType := ''application/json'', ss_resp := Some (DynamicMessage ''bad'' [])\<rparr>"

definition binaryStream :: serverStream where
  "binaryStream =
     (exampleStream (getRequest ''/v1/hello'' []))
       \<lparr>ss_acceptType := ''application/x-protobuf'', ss_resp := Some helloReply\<rparr>"

text \<open>
  Two rules that both match \<open>GET /v1/hello\<close>, a literal one for \<open>Hello\<close> and a wildcard
  for \<open>Catch\<close>, registered in both orders; a stream handler that answers through
  \<open>dispatch\<close> with a message named after the method; a file declaring both methods.
\<close>

definition catchMethod :: httpMethod where
  "catchMethod =
     \<lparr>desc = \<lparr>md_Name = ''Catch'', md_FullName = ''pkg.Greeter.Catch''\<rparr>,
      rule = HttpRule [] (Some (HttpRule_Get ''/**'')) [] [] []\<rparr>"

definition echoHandler :: StreamHandler where
  "echoHandler name ss =
     fst (dispatch exampleHenv (\<lambda>n. DynamicMessage ''pkg.HelloRequest'' [])
            (\<lambda>n req. Inr (DynamicMessage n [])) name ss)"

definition literalFirst :: Handler where
  "literalFirst =
     \<lparr>httpMethods = [helloMethod, catchMethod], grpcHandler = echoHandler,
      h_log = Some (Logger ''stderr''), ruleTemplates = [], defaultHandler = NotFoundHandler\<rparr>"

definition wildcardFirst :: Handler where
  "wildcardFirst =
     \<lparr>httpMethods = [catchMethod, helloMethod], grpcHandler = echoHandler,
      h_log = Some (Logger ''stderr''), ruleTemplates = [], defaultHandler = NotFoundHandler\<rparr>"

definition exampleCollect :: "MethodDescriptor \<Rightarrow> HttpRule list" where
  "exampleCollect md =
     (if md_Name md = ''Hello'' then [rule helloMethod]
      else if md_Name md = ''Catch'' then [rule catchMethod]
      else [])"

definition twoMethodFile :: FileDescriptor where
  "twoMethodFile =
     \<lparr>fd_Path = ''greet.proto'', fd_Package = ''pkg'', fd_Imports = [],
      fd_Services =
        [\<lparr>sd_Name = ''Greeter'', sd_FullName = ''pkg.Greeter'',
          sd_Methods = [desc helloMethod, desc catchMethod]\<rparr>],
      fd_Messages = [''pkg.HelloRequest'']\<rparr>"

definition teapotHandler :: http_Handler where
  "teapotHandler w r = Returned (Write (WriteHeader w 418) ''teapot'')"

text \<open>A fallback template, and a method that declares no rule.\<close>

definition postTemplate :: HttpRule where
  "postTemplate =
     HttpRule [] (Some (HttpRule_Post ''/api/{package}.{service}/{method}'')) ''*'' [] []"

definition customTemplate :: HttpRule where
  "customTemplate =
     HttpRule [] (Some (HttpRule_Custom (CustomHttpPattern ''HEAD'' ''/{method}''))) [] [] []"

text \<open>
  A descriptor set with two files, \<open>app.proto\<close> importing \<open>base.proto\<close>, which
  \<open>RangeFiles\<close> visits in the order \<open>app.proto\<close>, \<open>base.proto\<close>; the named protoset
  \<open>dep.pb\<close> holds it, and \<open>junk.pb\<close> does not decode.
\<close>

definition appFile :: FileDescriptor where
  "appFile =
     \<lparr>fd_Path = ''app.proto'', fd_Package = ''app'', fd_Imports = [''base.proto''],
      fd_Services =
        [\<lparr>sd_Name = ''App'', sd_FullName = ''app.App'',
          sd_Methods = [\<lparr>md_Name = ''Run'', md_FullName = ''app.App.Run''\<rparr>]\<rparr>],
      fd_Messages = [''app.RunRequest'']\<rparr>"

definition baseFile :: FileDescriptor where
  "baseFile =
     \<lparr>fd_Path = ''base.proto'', fd_Package = ''base'', fd_Imports = [],
      fd_Services = [], fd_Messages = [''base.Id'']\<rparr>"

definition depEnv :: "(FileDescriptor list, string) env" where
  "depEnv =
     \<lparr>os_ReadFile =
        (\<lambda>name. if name = ''dep.pb'' then Inr ''dep''
                 else if name = ''junk.pb'' then Inr ''junk''
                 else Inl (PlainErr ''no such file'')),
      proto_Unmarshal =
        (\<lambda>b. if b = ''dep'' then Inr [appFile, baseFile] else Inl (PlainErr ''cannot parse'')),
      protodesc_NewFiles = Inr,
      RegisterFile = Register,
      FindDescriptorByName = FindByName,
      grpc_Method = Some,
      callMethod = (\<lambda>s md ss. Returned (None, ss))\<rparr>"

text \<open>A file system in which the glob finds \<open>_skip.pb\<close> and \<open>junk.pb\<close>, neither decodable.\<close>

definition junkFS :: FS where
  "junkFS = \<lparr>fs_Glob = (\<lambda>p. Inr [''_skip.pb'', ''junk.pb'']), fs_ReadFile = (\<lambda>n. Inr ''junk'')\<rparr>"

text \<open>
  A heap with the two templates: the rule at address 0 with its wrapper at 1, and the
  rule at address 2 with its custom wrapper at 3 and the pattern behind it at 4.
\<close>

definition templateHeap :: heap where
  "templateHeap =
     [RuleObj [] (Some 1) ''*'' [] [],
      WrapperObj (W_Post ''/api/{package}.{service}/{method}''),
      RuleObj [] (Some 3) [] [] [],
      WrapperObj (W_Custom 4),
      CustomObj ''HEAD'' ''/{method}'']"

definition helloHeap :: heap where
  "helloHeap =
     templateHeap @
     [WrapperObj (W_Post ''/api/pkg.Greeter/Hello''),
      RuleObj [] (Some 5) ''*'' [] [],
      CustomObj ''HEAD'' ''/Hello'',
      WrapperObj (W_Custom 7),
      RuleObj [] (Some 8) [] [] []]"

section \<open>Verified properties\<close>

subsection \<open>Strings\<close>

lemma ReplaceAll_char: "ReplaceAll s [a] [b] = map (\<lambda>c. if c = a then b else c) s"
proof (induction s)
  case Nil
  show ?case by (simp add: ReplaceAll.simps)
next
  case (Cons c cs)
  show ?case
    by (subst ReplaceAll.simps) (simp add: Cons.IH)
qed

subsection \<open>The dispatcher of binary-protocol calls\<close>

text \<open>
  C7. A call whose method is in path form, a slash followed by \<open>rest\<close>, is looked up in
  the registry under \<open>rest\<close> with every slash replaced by a dot: the leading slash is
  stripped, every remaining slash becomes a dot, and this name decides between
  \<open>Unimplemented\<close> and the call of the method.
\<close>

theorem UnknownHandler_full_name:
  assumes "grpc_Method E ss = Some (CHR ''/'' # rest)"
  shows "UnknownHandler E s ss =
           (case lookupMethod E s (map (\<lambda>c. if c = CHR ''/'' then CHR ''.'' else c) rest) of
              None \<Rightarrow>
                Returned (Some (StatusErr Unimplemented
                  (''method not found: '' @ map (\<lambda>c. if c = CHR ''/'' then CHR ''.'' else c) rest)), ss)
            | Some md \<Rightarrow> callMethod E s md ss)"
  using assms by (simp add: UnknownHandler_def ReplaceAll_char Let_def)

theorem UnknownHandler_full_name_witness:
  "grpc_Method exampleEnv ''/pkg.Greeter/Hello'' = Some ''/pkg.Greeter/Hello'' \<and>
   map (\<lambda>c. if c = CHR ''/'' then CHR ''.'' else c) ''pkg.Greeter/Hello'' = ''pkg.Greeter.Hello'' \<and>
   lookupMethod exampleEnv exampleServer ''pkg.Greeter.Hello''
     = Some \<lparr>md_Name = ''Hello'', md_FullName = ''pkg.Greeter.Hello''\<rparr> \<and>
   UnknownHandler exampleEnv exampleServer ''/pkg.Greeter/Hello''
     = callMethod exampleEnv exampleServer
         \<lparr>md_Name = ''Hello'', md_FullName = ''pkg.Greeter.Hello''\<rparr> ''/pkg.Greeter/Hello''"
proof -
  have m: "grpc_Method exampleEnv ''/pkg.Greeter/Hello'' = Some (CHR ''/'' # ''pkg.Greeter/Hello'')"
    by (simp add: exampleEnv_def)
  have l: "lookupMethod exampleEnv exampleServer ''pkg.Greeter.Hello''
     = Some \<lparr>md_Name = ''Hello'', md_FullName = ''pkg.Greeter.Hello''\<rparr>"
    by (simp add: lookupMethod_def exampleEnv_def exampleServer_def FindByName_def greetFile_def)
  show ?thesis
    using UnknownHandler_full_name [OF m, of exampleServer] m l by simp
qed



subsection \<open>Content negotiation\<close>

lemma getAcceptType_cases:
  "getAcceptType H r =
     (let a = Header_Get (req_Header r) ''Accept'';
          accept = (if a = [] then Header_Get (req_Header r) ''Content-Type'' else a)
      in if accept = [] \<or> accept = ''*/*'' then Inr (ContentTypeJSON H)
         else (case mime_ParseMediaType H accept of
                 Inl err \<Rightarrow> Inl err
               | Inr t \<Rightarrow>
                   (if t = ContentTypeBinaryProto H \<or> t = ContentTypeJSON H then Inr t
                    else Inl (PlainErr (''invalid Accept content type '' @ accept)))))"
  by (auto simp: getAcceptType_def Let_def split: sum.splits)

lemma getAcceptType_accepted:
  "getAcceptType H r = Inr t \<Longrightarrow> t = ContentTypeBinaryProto H \<or> t = ContentTypeJSON H"
  by (auto simp: getAcceptType_cases Let_def split: sum.splits if_splits)

lemma getAcceptType_Accept_first:
  "Header_Get (req_Header r) ''Accept'' \<noteq> [] \<Longrightarrow>
   Header_Get (req_Header r') ''Accept'' = Header_Get (req_Header r) ''Accept'' \<Longrightarrow>
   getAcceptType H r' = getAcceptType H r"
  by (simp add: getAcceptType_cases Let_def)

lemma getAcceptType_Content_Type_second:
  "Header_Get (req_Header r) ''Accept'' = [] \<Longrightarrow>
   Header_Get (req_Header r) ''Content-Type'' \<noteq> [] \<Longrightarrow>
   Header_Get (req_Header r') ''Accept'' = Header_Get (req_Header r) ''Content-Type'' \<Longrightarrow>
   getAcceptType H r' = getAcceptType H r"
  by (simp add: getAcceptType_cases Let_def)

lemma getAcceptType_default:
  "Header_Get (req_Header r) ''Accept'' = [] \<Longrightarrow>
   Header_Get (req_Header r) ''Content-Type'' = [] \<Longrightarrow>
   getAcceptType H r = Inr (ContentTypeJSON H)"
  by (simp add: getAcceptType_cases Let_def)

lemma getAcceptType_unsupported:
  "accept = (if Header_Get (req_Header r) ''Accept'' = []
             then Header_Get (req_Header r) ''Content-Type''
             else Header_Get (req_Header r) ''Accept'') \<Longrightarrow>
   accept \<noteq> [] \<Longrightarrow> accept \<noteq> ''*/*'' \<Longrightarrow>
   mime_ParseMediaType H accept = Inr t \<Longrightarrow>
   t \<noteq> ContentTypeBinaryProto H \<Longrightarrow> t \<noteq> ContentTypeJSON H \<Longrightarrow>
   getAcceptType H r = Inl (PlainErr (''invalid Accept content type '' @ accept))"
  by (simp add: getAcceptType_cases Let_def)

lemma RecvMsg_rejected:
  "getAcceptType H (ss_req s) = Inl err \<Longrightarrow>
   RecvMsg H s m = Returned (Some err, s\<lparr>ss_acceptType := []\<rparr>, m)"
  by (simp add: RecvMsg_def)

lemma dispatch_rejected:
  "getAcceptType H (ss_req s) = Inl err \<Longrightarrow>
   dispatch H newRequest Evaluate name s = (Returned (Some err, s\<lparr>ss_acceptType := []\<rparr>), [])"
  by (simp add: dispatch_def RecvMsg_rejected)

lemma getAcceptType_parse_error:
  "accept = (if Header_Get (req_Header r) ''Accept'' = []
             then Header_Get (req_Header r) ''Content-Type''
             else Header_Get (req_Header r) ''Accept'') \<Longrightarrow>
   accept \<noteq> [] \<Longrightarrow> accept \<noteq> ''*/*'' \<Longrightarrow>
   mime_ParseMediaType H accept = Inl e \<Longrightarrow> getAcceptType H r = Inl e"
  by (simp add: getAcceptType_cases Let_def)

lemma getAcceptType_supported:
  "accept = (if Header_Get (req_Header r) ''Accept'' = []
             then Header_Get (req_Header r) ''Content-Type''
             else Header_Get (req_Header r) ''Accept'') \<Longrightarrow>
   accept \<noteq> [] \<Longrightarrow> accept \<noteq> ''*/*'' \<Longrightarrow>
   mime_ParseMediaType H accept = Inr u \<Longrightarrow>
   u = ContentTypeBinaryProto H \<or> u = ContentTypeJSON H \<Longrightarrow> getAcceptType H r = Inr u"
  by (simp add: getAcceptType_cases Let_def)

lemma getAcceptType_any:
  "accept = (if Header_Get (req_Header r) ''Accept'' = []
             then Header_Get (req_Header r) ''Content-Type''
             else Header_Get (req_Header r) ''Accept'') \<Longrightarrow>
   accept = [] \<or> accept = ''*/*'' \<Longrightarrow> getAcceptType H r = Inr (ContentTypeJSON H)"
  by (simp add: getAcceptType_cases Let_def)

lemma getAcceptType_DecodeRequest:
  "getAcceptType (H\<lparr>DecodeRequest := d\<rparr>) r = getAcceptType H r"
  by (simp add: getAcceptType_def Let_def split: sum.splits)

lemma RecvMsg_rejected_any:
  "getAcceptType H (ss_req s) = Inl err \<Longrightarrow>
   RecvMsg (H\<lparr>DecodeRequest := d\<rparr>) s m = Returned (Some err, s\<lparr>ss_acceptType := []\<rparr>, m)"
  by (simp add: RecvMsg_def getAcceptType_DecodeRequest)

lemma RecvMsg_accepted:
  "getAcceptType H (ss_req s) = Inr t \<Longrightarrow>
   RecvMsg H s (DynamicMessage n fs)
     = Returned (fst (DecodeRequest H (ss_rule s) (ss_vars s) (ss_req s) (DynamicMessage n fs)),
         s\<lparr>ss_acceptType := t\<rparr>,
         snd (DecodeRequest H (ss_rule s) (ss_vars s) (ss_req s) (DynamicMessage n fs)))"
  by (simp add: RecvMsg_def Let_def split: prod.splits)

lemma writeResp_binary:
  "ss_acceptType s = ContentTypeBinaryProto H \<Longrightarrow>
   writeResp H s =
     (case proto_Marshal H (ss_resp s) of
        Inl e \<Rightarrow> writeError H s e
      | Inr msg \<Rightarrow> Returned (Write (ss_respWriter s) msg))"
  by (simp add: writeResp_def marshalerForContentType_def)

lemma writeResp_json:
  "ss_acceptType s \<noteq> ContentTypeBinaryProto H \<Longrightarrow> ss_acceptType s = ContentTypeJSON H \<Longrightarrow>
   writeResp H s =
     (case protojson_Marshal H (ss_resp s) of
        Inl e \<Rightarrow> writeError H s e
      | Inr msg \<Rightarrow> Returned (Write (ss_respWriter s) msg))"
  by (simp add: writeResp_def marshalerForContentType_def)

lemma serveHTTPMethod_dispatch_rejected:
  assumes "grpcHandler h = (\<lambda>name ss. fst (dispatch H newRequest Evaluate name ss))"
    and "getAcceptType H r = Inl err"
  shows "serveHTTPMethod H h hm vs w r =
     writeError H \<lparr>ss_req = r, ss_respWriter = w, ss_rule = rule hm, ss_vars = vs,
                   ss_acceptType = [], ss_resp = None\<rparr> err"
proof -
  let ?ss = "\<lparr>ss_req = r, ss_respWriter = w, ss_rule = rule hm, ss_vars = vs,
                   ss_acceptType = [], ss_resp = None\<rparr>"
  have "getAcceptType H (ss_req ?ss) = Inl err" using assms(2) by simp
  from dispatch_rejected [OF this, of newRequest Evaluate "md_FullName (desc hm)"]
  have "dispatch H newRequest Evaluate (md_FullName (desc hm)) ?ss = (Returned (Some err, ?ss), [])"
    by simp
  then show ?thesis by (simp add: serveHTTPMethod_def assms(1))
qed

lemma serveHTTPMethod_dispatch_accepted:
  assumes "grpcHandler h = (\<lambda>name ss. fst (dispatch H newRequest Evaluate name ss))"
    and "getAcceptType H r = Inr t"
    and "newRequest (md_FullName (desc hm)) = DynamicMessage n fs"
    and "DecodeRequest H (rule hm) vs r (DynamicMessage n fs) = (None, req)"
    and "Evaluate (md_FullName (desc hm)) req = Inr resp"
  shows "serveHTTPMethod H h hm vs w r =
     writeResp H \<lparr>ss_req = r, ss_respWriter = w, ss_rule = rule hm, ss_vars = vs,
                  ss_acceptType = t, ss_resp = Some resp\<rparr>"
proof -
  let ?ss = "\<lparr>ss_req = r, ss_respWriter = w, ss_rule = rule hm, ss_vars = vs,
                   ss_acceptType = [], ss_resp = None\<rparr>"
  have "getAcceptType H (ss_req ?ss) = Inr t" using assms(2) by simp
  from RecvMsg_accepted [OF this, of n fs]
  have "RecvMsg H ?ss (DynamicMessage n fs) = Returned (None, ?ss\<lparr>ss_acceptType := t\<rparr>, req)"
    by (simp add: assms(4))
  then have "dispatch H newRequest Evaluate (md_FullName (desc hm)) ?ss
      = (Returned (None, ?ss\<lparr>ss_acceptType := t, ss_resp := Some resp\<rparr>),
         [(md_FullName (desc hm), req)])"
    by (simp add: dispatch_def assms(3,5) SendMsg_def)
  then show ?thesis by (simp add: serveHTTPMethod_def assms(1))
qed


text \<open>
  C5. The response encoding is negotiated from the request's headers. When \<open>Accept\<close> is
  present it alone decides (any request with the same \<open>Accept\<close> value gets the same
  result); when it is absent and \<open>Content-Type\<close> is present, \<open>Content-Type\<close> decides as
  \<open>Accept\<close> would; when both are absent the result is the JSON type. For the deciding
  value: empty or \<open>*/*\<close> gives JSON; otherwise an error of the media type parser is
  returned, a parsed type that is the binary or the JSON type is the result, and any other
  parsed type is rejected with an error. An accepted type is the binary or the JSON type.
  \<open>RecvMsg\<close> records the accepted type in the stream and decodes the request; on a
  rejection it returns the error, whatever \<open>DecodeRequest\<close> would do, and the dispatcher
  returns it without a single invocation of the Evaluator. \<open>writeResp\<close> marshals the
  response with the marshaler of the recorded type. Through \<open>serveHTTPMethod\<close>, with the
  dispatcher as stream handler, a rejected request is answered by \<open>writeError\<close> on the
  rejection, and an accepted one by \<open>writeResp\<close> on the stream that holds the accepted
  type and the Evaluator's response.
\<close>

theorem content_negotiation:
  "(Header_Get (req_Header r) ''Accept'' \<noteq> [] \<longrightarrow>
      Header_Get (req_Header r') ''Accept'' = Header_Get (req_Header r) ''Accept'' \<longrightarrow>
      getAcceptType H r' = getAcceptType H r) \<and>
   (Header_Get (req_Header r) ''Accept'' = [] \<longrightarrow>
      Header_Get (req_Header r) ''Content-Type'' \<noteq> [] \<longrightarrow>
      Header_Get (req_Header r') ''Accept'' = Header_Get (req_Header r) ''Content-Type'' \<longrightarrow>
      getAcceptType H r' = getAcceptType H r) \<and>
   (Header_Get (req_Header r) ''Accept'' = [] \<longrightarrow>
      Header_Get (req_Header r) ''Content-Type'' = [] \<longrightarrow>
      getAcceptType H r = Inr (ContentTypeJSON H)) \<and>
   (getAcceptType H r = Inr t \<longrightarrow> t = ContentTypeBinaryProto H \<or> t = ContentTypeJSON H) \<and>
   (accept = (if Header_Get (req_Header r) ''Accept'' = []
              then Header_Get (req_Header r) ''Content-Type''
              else Header_Get (req_Header r) ''Accept'') \<longrightarrow>
      accept \<noteq> [] \<longrightarrow> accept \<noteq> ''*/*'' \<longrightarrow>
      mime_ParseMediaType H accept = Inr u \<longrightarrow>
      u \<noteq> ContentTypeBinaryProto H \<longrightarrow> u \<noteq> ContentTypeJSON H \<longrightarrow>
      getAcceptType H r = Inl (PlainErr (''invalid Accept content type '' @ accept))) \<and>
   (getAcceptType H (ss_req s) = Inl err \<longrightarrow>
      RecvMsg H s m = Returned (Some err, s\<lparr>ss_acceptType := []\<rparr>, m) \<and>
      dispatch H newRequest Evaluate name s
        = (Returned (Some err, s\<lparr>ss_acceptType := []\<rparr>), [])) \<and>
   (accept = (if Header_Get (req_Header r) ''Accept'' = []
              then Header_Get (req_Header r) ''Content-Type''
              else Header_Get (req_Header r) ''Accept'') \<longrightarrow>
      (accept = [] \<or> accept = ''*/*'') \<longrightarrow> getAcceptType H r = Inr (ContentTypeJSON H)) \<and>
   (accept = (if Header_Get (req_Header r) ''Accept'' = []
              then Header_Get (req_Header r) ''Content-Type''
              else Header_Get (req_Header r) ''Accept'') \<longrightarrow>
      accept \<noteq> [] \<longrightarrow> accept \<noteq> ''*/*'' \<longrightarrow>
      mime_ParseMediaType H accept = Inl e \<longrightarrow> getAcceptType H r = Inl e) \<and>
   (accept = (if Header_Get (req_Header r) ''Accept'' = []
              then Header_Get (req_Header r) ''Content-Type''
              else Header_Get (req_Header r) ''Accept'') \<longrightarrow>
      accept \<noteq> [] \<longrightarrow> accept \<noteq> ''*/*'' \<longrightarrow>
      mime_ParseMediaType H accept = Inr u \<longrightarrow>
      (u = ContentTypeBinaryProto H \<or> u = ContentTypeJSON H) \<longrightarrow>
      getAcceptType H r = Inr u) \<and>
   (getAcceptType H (ss_req s) = Inr t \<longrightarrow>
      RecvMsg H s (DynamicMessage n fs)
        = Returned
            (fst (DecodeRequest H (ss_rule s) (ss_vars s) (ss_req s) (DynamicMessage n fs)),
             s\<lparr>ss_acceptType := t\<rparr>,
             snd (DecodeRequest H (ss_rule s) (ss_vars s) (ss_req s) (DynamicMessage n fs)))) \<and>
   (getAcceptType H (ss_req s) = Inl err \<longrightarrow>
      RecvMsg (H\<lparr>DecodeRequest := d\<rparr>) s m = Returned (Some err, s\<lparr>ss_acceptType := []\<rparr>, m)) \<and>
   (ss_acceptType s = ContentTypeBinaryProto H \<longrightarrow>
      writeResp H s =
        (case proto_Marshal H (ss_resp s) of
           Inl e \<Rightarrow> writeError H s e
         | Inr msg \<Rightarrow> Returned (Write (ss_respWriter s) msg))) \<and>
   (ss_acceptType s \<noteq> ContentTypeBinaryProto H \<longrightarrow> ss_acceptType s = ContentTypeJSON H \<longrightarrow>
      writeResp H s =
        (case protojson_Marshal H (ss_resp s) of
           Inl e \<Rightarrow> writeError H s e
         | Inr msg \<Rightarrow> Returned (Write (ss_respWriter s) msg))) \<and>
   (grpcHandler h = (\<lambda>name ss. fst (dispatch H newRequest Evaluate name ss)) \<longrightarrow>
      getAcceptType H r = Inl err \<longrightarrow>
      serveHTTPMethod H h hm vs w r =
        writeError H \<lparr>ss_req = r, ss_respWriter = w, ss_rule = rule hm, ss_vars = vs,
                      ss_acceptType = [], ss_resp = None\<rparr> err) \<and>
   (grpcHandler h = (\<lambda>name ss. fst (dispatch H newRequest Evaluate name ss)) \<longrightarrow>
      getAcceptType H r = Inr t \<longrightarrow>
      newRequest (md_FullName (desc hm)) = DynamicMessage n fs \<longrightarrow>
      DecodeRequest H (rule hm) vs r (DynamicMessage n fs) = (None, req) \<longrightarrow>
      Evaluate (md_FullName (desc hm)) req = Inr resp \<longrightarrow>
      serveHTTPMethod H h hm vs w r =
        writeResp H \<lparr>ss_req = r, ss_respWriter = w, ss_rule = rule hm, ss_vars = vs,
                     ss_acceptType = t, ss_resp = Some resp\<rparr>)"
proof -
  note choice = getAcceptType_Accept_first [of r r' H]
    getAcceptType_Content_Type_second [of r r' H]
    getAcceptType_default [of r H]
    getAcceptType_accepted [of H r t]
  note decided = getAcceptType_unsupported [of accept r H u]
    getAcceptType_any [of accept r H]
    getAcceptType_parse_error [of accept r H e]
    getAcceptType_supported [of accept r H u]
  note recv = RecvMsg_rejected [of H s err m]
    dispatch_rejected [of H s err newRequest Evaluate name]
    RecvMsg_accepted [of H s t n fs]
    RecvMsg_rejected_any [of H s err d m]
  note resp = writeResp_binary [of s H] writeResp_json [of s H]
  note serve = serveHTTPMethod_dispatch_rejected [of h H newRequest Evaluate r err hm vs w]
    serveHTTPMethod_dispatch_accepted [of h H newRequest Evaluate r t hm n fs vs req resp w]
  show ?thesis
    apply (intro conjI impI)
    subgoal using choice(1) by blast
    subgoal using choice(2) by blast
    subgoal using choice(3) by blast
    subgoal using choice(4) by blast
    subgoal using decided(1) by blast
    subgoal using recv(1) by blast
    subgoal using recv(2) by blast
    subgoal using decided(2) by blast
    subgoal using decided(3) by blast
    subgoal using decided(4) by blast
    subgoal using recv(3) by blast
    subgoal using recv(4) by blast
    subgoal using resp(1) by blast
    subgoal using resp(2) by blast
    subgoal using serve(1) by blast
    subgoal using serve(2) by blast
    done
qed


theorem content_negotiation_witness:
  "getAcceptType exampleHenv htmlRequest = Inl (PlainErr ''invalid Accept content type text/html'') \<and>
   RecvMsg exampleHenv (exampleStream htmlRequest) (DynamicMessage ''pkg.HelloRequest'' [])
     = Returned (Some (PlainErr ''invalid Accept content type text/html''),
         exampleStream htmlRequest, DynamicMessage ''pkg.HelloRequest'' []) \<and>
   dispatch exampleHenv (\<lambda>n. DynamicMessage ''pkg.HelloRequest'' [])
       (\<lambda>n req. Inr (DynamicMessage n [])) ''pkg.Greeter.Hello''
       (exampleStream htmlRequest)
     = (Returned (Some (PlainErr ''invalid Accept content type text/html''),
         exampleStream htmlRequest), []) \<and>
   response_of (serveHTTPMethod exampleHenv literalFirst helloMethod [] emptyResponse htmlRequest)
     = Some (Some 500, ''{\"message\": \"invalid Accept content type text/html\"}'') \<and>
   getAcceptType (exampleHenv\<lparr>mime_ParseMediaType := (\<lambda>v. Inl (PlainErr ''mime: no media type''))\<rparr>)
       htmlRequest = Inl (PlainErr ''mime: no media type'') \<and>
   getAcceptType exampleHenv jsonRequest = Inr ''application/json'' \<and>
   RecvMsg exampleHenv (exampleStream jsonRequest) (DynamicMessage ''pkg.HelloRequest'' [])
     = Returned (None, (exampleStream jsonRequest)\<lparr>ss_acceptType := ''application/json''\<rparr>,
         DynamicMessage ''pkg.HelloRequest'' []) \<and>
   response_of (serveHTTPMethod exampleHenv literalFirst helloMethod [] emptyResponse jsonRequest)
     = Some (Some 200, ''{\"@type\": \"pkg.Greeter.Hello\"}'') \<and>
   getAcceptType exampleHenv protoRequest = Inr ''application/x-protobuf'' \<and>
   getAcceptType exampleHenv
       (getRequest ''/v1/hello'' [(''Accept'', [''application/x-protobuf; charset=utf-8''])])
     = getAcceptType exampleHenv protoRequest \<and>
   getAcceptType exampleHenv (getRequest ''/v1/hello'' []) = Inr ''application/json''"
proof -
  let ?m = "DynamicMessage ''pkg.HelloRequest'' []"
  let ?new = "\<lambda>n::string. DynamicMessage ''pkg.HelloRequest'' []"
  let ?ev = "\<lambda>(n::string) (req::Message). Inr (DynamicMessage n []) :: (Code \<times> string) + Message"
  let ?bad = "PlainErr ''invalid Accept content type text/html''"
  let ?nomime = "PlainErr ''mime: no media type''"
  let ?P = "exampleHenv\<lparr>mime_ParseMediaType := (\<lambda>v. Inl ?nomime)\<rparr>"
  let ?r2 = "getRequest ''/v1/hello'' [(''Accept'', [''application/x-protobuf; charset=utf-8''])]"
  let ?r3 = "getRequest ''/v1/hello'' []"
  let ?hello = "DynamicMessage ''pkg.Greeter.Hello'' []"
  let ?sj = "\<lparr>ss_req = jsonRequest, ss_respWriter = emptyResponse, ss_rule = rule helloMethod,
             ss_vars = [], ss_acceptType = ''application/json'', ss_resp = Some ?hello\<rparr>"
  let ?sh = "\<lparr>ss_req = htmlRequest, ss_respWriter = emptyResponse, ss_rule = rule helloMethod,
             ss_vars = [], ss_acceptType = [], ss_resp = None\<rparr>"
  have c: "ContentTypeBinaryProto exampleHenv = ''application/x-protobuf''"
    "ContentTypeJSON exampleHenv = ''application/json''"
    "ContentTypeBinaryProto ?P = ''application/x-protobuf''"
    "ContentTypeJSON ?P = ''application/json''"
    by (simp_all add: exampleHenv_def)
  have p: "mime_ParseMediaType exampleHenv ''text/html'' = Inr ''text/html''"
    "mime_ParseMediaType exampleHenv ''application/json'' = Inr ''application/json''"
    "mime_ParseMediaType exampleHenv ''application/x-protobuf; charset=utf-8''
       = Inr ''application/x-protobuf''"
    "mime_ParseMediaType ?P ''text/html'' = Inl ?nomime"
    by (simp_all add: exampleHenv_def)
  have hd: "Header_Get (req_Header htmlRequest) ''Accept'' = ''text/html''"
    "Header_Get (req_Header jsonRequest) ''Accept'' = ''application/json''"
    "Header_Get (req_Header protoRequest) ''Accept'' = []"
    "Header_Get (req_Header protoRequest) ''Content-Type'' = ''application/x-protobuf; charset=utf-8''"
    "Header_Get (req_Header ?r2) ''Accept'' = ''application/x-protobuf; charset=utf-8''"
    "Header_Get (req_Header ?r3) ''Accept'' = []"
    "Header_Get (req_Header ?r3) ''Content-Type'' = []"
    by (simp_all add: htmlRequest_def jsonRequest_def protoRequest_def getRequest_def Header_Get_def)
  have st: "ss_req (exampleStream htmlRequest) = htmlRequest"
    "(exampleStream htmlRequest)\<lparr>ss_acceptType := []\<rparr> = exampleStream htmlRequest"
    "ss_req (exampleStream jsonRequest) = jsonRequest"
    by (simp_all add: exampleStream_def)
  have dec: "DecodeRequest exampleHenv rl vs r ?m = (None, ?m)" for rl vs r
    by (simp add: exampleHenv_def)
  have gh: "grpcHandler literalFirst = (\<lambda>name ss. fst (dispatch exampleHenv ?new ?ev name ss))"
    by (simp add: literalFirst_def echoHandler_def fun_eq_iff)
  have nm: "md_FullName (desc helloMethod) = ''pkg.Greeter.Hello''"
    by (simp add: helloMethod_def)

  note A = content_negotiation [where H = exampleHenv and r = htmlRequest and r' = htmlRequest
      and accept = "''text/html''" and u = "''text/html''" and t = "''application/json''"
      and s = "exampleStream htmlRequest" and err = ?bad and m = ?m and newRequest = ?new
      and Evaluate = ?ev and name = "''pkg.Greeter.Hello''" and e = ?nomime and n = "''pkg.HelloRequest''"
      and fs = "[]" and d = "DecodeRequest exampleHenv" and h = literalFirst and hm = helloMethod
      and vs = "[]" and w = emptyResponse and req = ?m and resp = ?hello]
  have e1: "getAcceptType exampleHenv htmlRequest = Inl ?bad"
    using A hd p c by simp
  have e2: "RecvMsg exampleHenv (exampleStream htmlRequest) ?m
      = Returned (Some ?bad, exampleStream htmlRequest, ?m)"
    using A e1 st by simp
  have e3: "dispatch exampleHenv ?new ?ev ''pkg.Greeter.Hello'' (exampleStream htmlRequest)
      = (Returned (Some ?bad, exampleStream htmlRequest), [])"
    using A e1 st by simp
  have e4a: "serveHTTPMethod exampleHenv literalFirst helloMethod [] emptyResponse htmlRequest
      = writeError exampleHenv ?sh ?bad"
    using A e1 gh by simp
  have e4: "response_of (serveHTTPMethod exampleHenv literalFirst helloMethod [] emptyResponse htmlRequest)
     = Some (Some 500, ''{\"message\": \"invalid Accept content type text/html\"}'')"
    unfolding e4a
    by (simp add: response_of_def writeError_def exampleHenv_def status_Proto_def Write_def
        WriteHeader_def emptyResponse_def Let_def)

  note B = content_negotiation [where H = ?P and r = htmlRequest and r' = htmlRequest
      and accept = "''text/html''" and u = "''text/html''" and t = "''application/json''"
      and s = "exampleStream htmlRequest" and err = ?bad and m = ?m and newRequest = ?new
      and Evaluate = ?ev and name = "''pkg.Greeter.Hello''" and e = ?nomime and n = "''pkg.HelloRequest''"
      and fs = "[]" and d = "DecodeRequest exampleHenv" and h = literalFirst and hm = helloMethod
      and vs = "[]" and w = emptyResponse and req = ?m and resp = ?hello]
  have e5: "getAcceptType ?P htmlRequest = Inl ?nomime"
    using B hd p(4) by simp

  note C = content_negotiation [where H = exampleHenv and r = jsonRequest and r' = jsonRequest
      and accept = "''application/json''" and u = "''application/json''" and t = "''application/json''"
      and s = "exampleStream jsonRequest" and err = ?bad and m = ?m and newRequest = ?new
      and Evaluate = ?ev and name = "''pkg.Greeter.Hello''" and e = ?nomime and n = "''pkg.HelloRequest''"
      and fs = "[]" and d = "DecodeRequest exampleHenv" and h = literalFirst and hm = helloMethod
      and vs = "[]" and w = emptyResponse and req = ?m and resp = ?hello]
  have e6: "getAcceptType exampleHenv jsonRequest = Inr ''application/json''"
    using C hd p c by simp
  have e7: "RecvMsg exampleHenv (exampleStream jsonRequest) ?m
     = Returned (None, (exampleStream jsonRequest)\<lparr>ss_acceptType := ''application/json''\<rparr>, ?m)"
    using C e6 st dec by simp
  have e8a: "serveHTTPMethod exampleHenv literalFirst helloMethod [] emptyResponse jsonRequest
      = writeResp exampleHenv ?sj"
    using C e6 gh nm dec by simp
  note D = content_negotiation [where H = exampleHenv and r = jsonRequest and r' = jsonRequest
      and accept = "''application/json''" and u = "''application/json''" and t = "''application/json''"
      and s = ?sj and err = ?bad and m = ?m and newRequest = ?new
      and Evaluate = ?ev and name = "''pkg.Greeter.Hello''" and e = ?nomime and n = "''pkg.HelloRequest''"
      and fs = "[]" and d = "DecodeRequest exampleHenv" and h = literalFirst and hm = helloMethod
      and vs = "[]" and w = emptyResponse and req = ?m and resp = ?hello]
  have e8b: "writeResp exampleHenv ?sj
      = (case protojson_Marshal exampleHenv (Some ?hello) of
           Inl e \<Rightarrow> writeError exampleHenv ?sj e
         | Inr msg \<Rightarrow> Returned (Write (ss_respWriter ?sj) msg))"
  proof -
    from D have "ss_acceptType ?sj \<noteq> ContentTypeBinaryProto exampleHenv \<longrightarrow>
        ss_acceptType ?sj = ContentTypeJSON exampleHenv \<longrightarrow>
        writeResp exampleHenv ?sj =
          (case protojson_Marshal exampleHenv (ss_resp ?sj) of
             Inl e \<Rightarrow> writeError exampleHenv ?sj e
           | Inr msg \<Rightarrow> Returned (Write (ss_respWriter ?sj) msg))"
      by (elim conjE) assumption
    then show ?thesis using c by simp
  qed
  have e8: "response_of (serveHTTPMethod exampleHenv literalFirst helloMethod [] emptyResponse jsonRequest)
     = Some (Some 200, ''{\"@type\": \"pkg.Greeter.Hello\"}'')"
    unfolding e8a e8b
    by (simp add: response_of_def exampleHenv_def Write_def WriteHeader_def emptyResponse_def Let_def)

  note E = content_negotiation [where H = exampleHenv and r = protoRequest and r' = ?r2
      and accept = "''application/x-protobuf; charset=utf-8''" and u = "''application/x-protobuf''"
      and t = "''application/json''"
      and s = "exampleStream jsonRequest" and err = ?bad and m = ?m and newRequest = ?new
      and Evaluate = ?ev and name = "''pkg.Greeter.Hello''" and e = ?nomime and n = "''pkg.HelloRequest''"
      and fs = "[]" and d = "DecodeRequest exampleHenv" and h = literalFirst and hm = helloMethod
      and vs = "[]" and w = emptyResponse and req = ?m and resp = ?hello]
  have e9: "getAcceptType exampleHenv protoRequest = Inr ''application/x-protobuf''"
    using E hd p c by simp
  have e10: "getAcceptType exampleHenv ?r2 = getAcceptType exampleHenv protoRequest"
    using E hd by simp

  note F = content_negotiation [where H = exampleHenv and r = ?r3 and r' = ?r3
      and accept = "[]" and u = "''application/x-protobuf''"
      and t = "''application/json''"
      and s = "exampleStream jsonRequest" and err = ?bad and m = ?m and newRequest = ?new
      and Evaluate = ?ev and name = "''pkg.Greeter.Hello''" and e = ?nomime and n = "''pkg.HelloRequest''"
      and fs = "[]" and d = "DecodeRequest exampleHenv" and h = literalFirst and hm = helloMethod
      and vs = "[]" and w = emptyResponse and req = ?m and resp = ?hello]
  have e11: "getAcceptType exampleHenv ?r3 = Inr ''application/json''"
    using F hd c by simp
  show ?thesis using e1 e2 e3 e4 e5 e6 e7 e8 e9 e10 e11 by simp
qed

text \<open>
  C9. A request whose \<open>Accept\<close> header is exactly \<open>*/*\<close>, or that has neither an
  \<open>Accept\<close> nor a \<open>Content-Type\<close> value, is negotiated as JSON whatever the media type
  parser would say: the parser is not consulted, and the request is not rejected.
\<close>

theorem getAcceptType_wildcard:
  assumes "Header_Get (req_Header r) ''Accept'' = ''*/*'' \<or>
           (Header_Get (req_Header r) ''Accept'' = [] \<and>
            Header_Get (req_Header r) ''Content-Type'' = [])"
  shows "getAcceptType (H\<lparr>mime_ParseMediaType := parse\<rparr>) r = Inr (ContentTypeJSON H)"
  using assms by (auto simp: getAcceptType_def Let_def)

theorem getAcceptType_wildcard_witness:
  "Header_Get (req_Header (getRequest ''/v1/hello'' [(''Accept'', [''*/*''])])) ''Accept'' = ''*/*'' \<and>
   getAcceptType (exampleHenv\<lparr>mime_ParseMediaType := (\<lambda>v. Inl (PlainErr ''mime: no media type''))\<rparr>)
     (getRequest ''/v1/hello'' [(''Accept'', [''*/*''])]) = Inr ''application/json'' \<and>
   Header_Get (req_Header (getRequest ''/v1/hello'' [])) ''Accept'' = [] \<and>
   Header_Get (req_Header (getRequest ''/v1/hello'' [])) ''Content-Type'' = [] \<and>
   getAcceptType (exampleHenv\<lparr>mime_ParseMediaType := (\<lambda>v. Inl (PlainErr ''mime: no media type''))\<rparr>)
     (getRequest ''/v1/hello'' []) = Inr ''application/json''"
proof -
  have a: "Header_Get (req_Header (getRequest ''/v1/hello'' [(''Accept'', [''*/*''])])) ''Accept'' = ''*/*''"
    by (simp add: getRequest_def Header_Get_def)
  have b: "Header_Get (req_Header (getRequest ''/v1/hello'' [])) ''Accept'' = [] \<and>
           Header_Get (req_Header (getRequest ''/v1/hello'' [])) ''Content-Type'' = []"
    by (simp add: getRequest_def Header_Get_def)
  have j: "ContentTypeJSON exampleHenv = ''application/json''"
    by (simp add: exampleHenv_def)
  show ?thesis
    using getAcceptType_wildcard [where r = "getRequest ''/v1/hello'' [(''Accept'', [''*/*''])]"
            and H = exampleHenv and parse = "\<lambda>v. Inl (PlainErr ''mime: no media type'')"]
          getAcceptType_wildcard [where r = "getRequest ''/v1/hello'' []"
            and H = exampleHenv and parse = "\<lambda>v. Inl (PlainErr ''mime: no media type'')"]
          a b j
    by simp
qed

subsection \<open>The stream adapter\<close>

lemma serveHTTPMethod_panic:
  "grpcHandler h (md_FullName (desc hm))
     \<lparr>ss_req = r, ss_respWriter = w, ss_rule = rule hm, ss_vars = vs,
      ss_acceptType = [], ss_resp = None\<rparr> = Panicked p \<Longrightarrow>
   serveHTTPMethod H h hm vs w r = Panicked p"
  by (simp add: serveHTTPMethod_def)

text \<open>
  C2, as the claim states it, fails: after one response has been stored, a second
  \<open>SendMsg\<close> does not return an error. It panics.
\<close>

theorem SendMsg_second_counterexample:
  "SendMsg (exampleStream (getRequest ''/v1/hello'' [])) helloReply = Returned (None, sentStream) \<and>
   SendMsg sentStream otherReply = Panicked ''only one response expected!''"
  by (simp add: SendMsg_def sentStream_def exampleStream_def)

text \<open>
  C2, amended. The first \<open>SendMsg\<close> of a call stores its value and returns no error.
  Every later \<open>SendMsg\<close> panics with \<open>only one response expected!\<close>; it stores nothing,
  so the second value neither replaces nor joins the first. A panic of the stream
  handler leaves \<open>serveHTTPMethod\<close> as that panic: neither \<open>writeResp\<close> nor \<open>writeError\<close>
  runs, and no response is written for the call.
\<close>

theorem SendMsg_once:
  "(ss_resp s = None \<longrightarrow> SendMsg s m = Returned (None, s\<lparr>ss_resp := Some m\<rparr>)) \<and>
   (ss_resp s \<noteq> None \<longrightarrow> SendMsg s m = Panicked ''only one response expected!'') \<and>
   (grpcHandler h (md_FullName (desc hm))
      \<lparr>ss_req = r, ss_respWriter = w, ss_rule = rule hm, ss_vars = vs,
       ss_acceptType = [], ss_resp = None\<rparr> = Panicked p \<longrightarrow>
    serveHTTPMethod H h hm vs w r = Panicked p)"
proof (intro conjI impI)
  assume "ss_resp s = None"
  then show "SendMsg s m = Returned (None, s\<lparr>ss_resp := Some m\<rparr>)"
    by (simp add: SendMsg_def)
next
  assume "ss_resp s \<noteq> None"
  then show "SendMsg s m = Panicked ''only one response expected!''"
    by (simp add: SendMsg_def)
next
  assume "grpcHandler h (md_FullName (desc hm))
      \<lparr>ss_req = r, ss_respWriter = w, ss_rule = rule hm, ss_vars = vs,
       ss_acceptType = [], ss_resp = None\<rparr> = Panicked p"
  then show "serveHTTPMethod H h hm vs w r = Panicked p"
    by (rule serveHTTPMethod_panic)
qed

theorem SendMsg_once_witness:
  "ss_resp (exampleStream (getRequest ''/v1/hello'' [])) = None \<and>
   SendMsg (exampleStream (getRequest ''/v1/hello'' [])) helloReply = Returned (None, sentStream) \<and>
   ss_resp sentStream \<noteq> None \<and>
   SendMsg sentStream otherReply = Panicked ''only one response expected!'' \<and>
   serveHTTPMethod exampleHenv twiceHandler helloMethod [] emptyResponse (getRequest ''/v1/hello'' [])
     = Panicked ''only one response expected!''"
proof -
  let ?r = "getRequest ''/v1/hello'' []"
  have a: "ss_resp (exampleStream ?r) = None" "ss_resp sentStream \<noteq> None"
    "(exampleStream ?r)\<lparr>ss_resp := Some helloReply\<rparr> = sentStream"
    by (simp_all add: exampleStream_def sentStream_def)
  have b: "grpcHandler twiceHandler (md_FullName (desc helloMethod))
      \<lparr>ss_req = ?r, ss_respWriter = emptyResponse, ss_rule = rule helloMethod, ss_vars = [],
       ss_acceptType = [], ss_resp = None\<rparr> = Panicked ''only one response expected!''"
    by (simp add: twiceHandler_def sendTwice_def SendMsg_def)
  show ?thesis
    using SendMsg_once [where s = "exampleStream ?r" and m = helloReply and h = twiceHandler
        and hm = helloMethod and r = ?r and w = emptyResponse and vs = "[]"
        and p = "''only one response expected!''" and H = exampleHenv]
      SendMsg_once [where s = sentStream and m = otherReply and h = twiceHandler
        and hm = helloMethod and r = ?r and w = emptyResponse and vs = "[]"
        and p = "''only one response expected!''" and H = exampleHenv]
      a b
    by simp
qed

subsection \<open>Marshalling failures on the response path\<close>

lemma writeError_fallback:
  assumes "ss_acceptType s \<noteq> [] \<longrightarrow> marshalerForContentType H (ss_acceptType s) = Returned mar"
    and "ss_acceptType s = [] \<longrightarrow> mar = protojson_Marshal H"
    and "mar (Some (status_Proto (status_Convert err))) = Inl e"
  shows "writeError H s err =
     Returned (Write (WriteHeader
       (if ss_acceptType s = [] then ss_respWriter s
        else SetHeader (ss_respWriter s) ''Content-Type'' (ss_acceptType s))
       StatusInternalServerError) errMarshalFailed)"
  using assms by (cases "ss_acceptType s = []") (simp_all add: writeError_def Let_def)

lemma Write_fresh:
  "rw_Status w = None \<Longrightarrow>
   rw_Status (Write (WriteHeader w c) b) = Some c \<and>
   rw_Body (Write (WriteHeader w c) b) = rw_Body w @ b"
  by (simp add: Write_def WriteHeader_def Let_def)

lemma SetHeader_fields:
  "rw_Status (SetHeader w k v) = rw_Status w" "rw_Body (SetHeader w k v) = rw_Body w"
  by (simp_all add: SetHeader_def)

lemma writeResp_failure:
  "marshalerForContentType H (ss_acceptType s) = Returned mar \<Longrightarrow>
   mar (ss_resp s) = Inl e \<Longrightarrow> writeResp H s = writeError H s e"
  by (simp add: writeResp_def)

text \<open>
  C8, as the claim states it, fails for the success payload: when the response does not
  marshal but the status of the marshalling error does, the handler writes that
  marshalled status, not the fixed payload.
\<close>

theorem marshal_failure_counterexample:
  "protojson_Marshal exampleHenv (ss_resp badStream) = Inl (PlainErr ''invalid UTF-8'') \<and>
   response_of (writeResp exampleHenv badStream)
     = Some (Some 500, ''{\"message\": \"invalid UTF-8\"}'') \<and>
   ''{\"message\": \"invalid UTF-8\"}'' \<noteq> errMarshalFailed"
  by (simp add: response_of_def writeResp_def writeError_def marshalerForContentType_def
      badStream_def exampleStream_def exampleHenv_def status_Proto_def Write_def WriteHeader_def
      SetHeader_def emptyResponse_def errMarshalFailed_def Let_def)

lemma writeError_marshalled:
  assumes "ss_acceptType s \<noteq> [] \<longrightarrow> marshalerForContentType H (ss_acceptType s) = Returned mar"
    and "ss_acceptType s = [] \<longrightarrow> mar = protojson_Marshal H"
    and "mar (Some (status_Proto (status_Convert err))) = Inr buf"
  shows "writeError H s err =
     Returned (Write (WriteHeader
       (if ss_acceptType s = [] then ss_respWriter s
        else SetHeader (ss_respWriter s) ''Content-Type'' (ss_acceptType s))
       (HTTPStatusFromCode H (fst (status_Convert err)))) buf)"
  using assms by (cases "ss_acceptType s = []") (simp_all add: writeError_def Let_def)

lemma writeResp_success:
  "marshalerForContentType H (ss_acceptType s) = Returned mar \<Longrightarrow>
   mar (ss_resp s) = Inr msg \<Longrightarrow> writeResp H s = Returned (Write (ss_respWriter s) msg)"
  by (simp add: writeResp_def)

lemma response_of_Write_fresh:
  assumes "rw_Status (ss_respWriter s) = None"
  shows "response_of (Returned (Write (WriteHeader
       (if ss_acceptType s = [] then ss_respWriter s
        else SetHeader (ss_respWriter s) ''Content-Type'' (ss_acceptType s)) c) b))
     = Some (Some c, rw_Body (ss_respWriter s) @ b)"
proof -
  let ?w = "if ss_acceptType s = [] then ss_respWriter s
        else SetHeader (ss_respWriter s) ''Content-Type'' (ss_acceptType s)"
  have n: "rw_Status ?w = None" "rw_Body ?w = rw_Body (ss_respWriter s)"
    using assms by (simp_all add: SetHeader_fields)
  show ?thesis
    using Write_fresh [OF n(1), of c b] n(2) by (simp add: response_of_def)
qed

text \<open>
  C8, amended. \<open>writeError\<close> selects the marshaler of the negotiated type, the JSON one
  when no type was negotiated, and applies it to the error's status message. When that
  fails, \<open>writeError\<close> writes status 500 and the fixed payload \<open>errMarshalFailed\<close>, whose
  code is 13. When it succeeds, \<open>writeError\<close> writes the marshalled status with the HTTP
  status mapped from the status code. In both cases the header is the response's, with
  \<open>Content-Type\<close> set when a type was negotiated, and on a response that has no status
  yet the status and the body are the ones written. When the response of a successful
  call marshals, \<open>writeResp\<close> writes it; when it fails to marshal, \<open>writeResp\<close> is
  \<open>writeError\<close> on the marshalling error, so the fixed payload is written only if that
  error's status fails to marshal too.
\<close>

theorem marshal_failure_fallback:
  "((ss_acceptType s \<noteq> [] \<longrightarrow> marshalerForContentType H (ss_acceptType s) = Returned mar) \<longrightarrow>
    (ss_acceptType s = [] \<longrightarrow> mar = protojson_Marshal H) \<longrightarrow>
    mar (Some (status_Proto (status_Convert err))) = Inl e \<longrightarrow>
    rw_Status (ss_respWriter s) = None \<longrightarrow>
    response_of (writeError H s err)
      = Some (Some 500, rw_Body (ss_respWriter s) @ errMarshalFailed)) \<and>
   (marshalerForContentType H (ss_acceptType s) = Returned mar' \<longrightarrow>
    mar' (ss_resp s) = Inl e' \<longrightarrow> writeResp H s = writeError H s e') \<and>
   errMarshalFailed = ''{\"code\": 13, \"message\": \"failed to marshal error message\"}'' \<and>
   ((ss_acceptType s \<noteq> [] \<longrightarrow> marshalerForContentType H (ss_acceptType s) = Returned mar) \<longrightarrow>
    (ss_acceptType s = [] \<longrightarrow> mar = protojson_Marshal H) \<longrightarrow>
    mar (Some (status_Proto (status_Convert err))) = Inl e \<longrightarrow>
    writeError H s err =
      Returned (Write (WriteHeader
        (if ss_acceptType s = [] then ss_respWriter s
         else SetHeader (ss_respWriter s) ''Content-Type'' (ss_acceptType s))
        500) errMarshalFailed)) \<and>
   ((ss_acceptType s \<noteq> [] \<longrightarrow> marshalerForContentType H (ss_acceptType s) = Returned mar) \<longrightarrow>
    (ss_acceptType s = [] \<longrightarrow> mar = protojson_Marshal H) \<longrightarrow>
    mar (Some (status_Proto (status_Convert err))) = Inr buf \<longrightarrow>
    writeError H s err =
      Returned (Write (WriteHeader
        (if ss_acceptType s = [] then ss_respWriter s
         else SetHeader (ss_respWriter s) ''Content-Type'' (ss_acceptType s))
        (HTTPStatusFromCode H (fst (status_Convert err)))) buf)) \<and>
   ((ss_acceptType s \<noteq> [] \<longrightarrow> marshalerForContentType H (ss_acceptType s) = Returned mar) \<longrightarrow>
    (ss_acceptType s = [] \<longrightarrow> mar = protojson_Marshal H) \<longrightarrow>
    mar (Some (status_Proto (status_Convert err))) = Inr buf \<longrightarrow>
    rw_Status (ss_respWriter s) = None \<longrightarrow>
    response_of (writeError H s err)
      = Some (Some (HTTPStatusFromCode H (fst (status_Convert err))),
              rw_Body (ss_respWriter s) @ buf)) \<and>
   (marshalerForContentType H (ss_acceptType s) = Returned mar' \<longrightarrow>
    mar' (ss_resp s) = Inr msg \<longrightarrow> writeResp H s = Returned (Write (ss_respWriter s) msg)) \<and>
   status_Convert (StatusErr c detail) = (c, detail) \<and>
   status_Convert (PlainErr detail) = (Unknown, detail)"
proof (intro conjI impI)
  assume a: "ss_acceptType s \<noteq> [] \<longrightarrow> marshalerForContentType H (ss_acceptType s) = Returned mar"
    and b: "ss_acceptType s = [] \<longrightarrow> mar = protojson_Marshal H"
    and c: "mar (Some (status_Proto (status_Convert err))) = Inl e"
  show f: "writeError H s err =
      Returned (Write (WriteHeader
        (if ss_acceptType s = [] then ss_respWriter s
         else SetHeader (ss_respWriter s) ''Content-Type'' (ss_acceptType s))
        500) errMarshalFailed)"
    using writeError_fallback [OF a b c] by (simp add: StatusInternalServerError_def)
  assume d: "rw_Status (ss_respWriter s) = None"
  show "response_of (writeError H s err)
      = Some (Some 500, rw_Body (ss_respWriter s) @ errMarshalFailed)"
    unfolding f by (rule response_of_Write_fresh [OF d])
next
  assume a: "ss_acceptType s \<noteq> [] \<longrightarrow> marshalerForContentType H (ss_acceptType s) = Returned mar"
    and b: "ss_acceptType s = [] \<longrightarrow> mar = protojson_Marshal H"
    and c: "mar (Some (status_Proto (status_Convert err))) = Inr buf"
  show f: "writeError H s err =
      Returned (Write (WriteHeader
        (if ss_acceptType s = [] then ss_respWriter s
         else SetHeader (ss_respWriter s) ''Content-Type'' (ss_acceptType s))
        (HTTPStatusFromCode H (fst (status_Convert err)))) buf)"
    using a b c by (rule writeError_marshalled)
  assume d: "rw_Status (ss_respWriter s) = None"
  show "response_of (writeError H s err)
      = Some (Some (HTTPStatusFromCode H (fst (status_Convert err))),
              rw_Body (ss_respWriter s) @ buf)"
    unfolding f by (rule response_of_Write_fresh [OF d])
next
  assume "marshalerForContentType H (ss_acceptType s) = Returned mar'" "mar' (ss_resp s) = Inl e'"
  then show "writeResp H s = writeError H s e'" by (rule writeResp_failure)
next
  assume "marshalerForContentType H (ss_acceptType s) = Returned mar'" "mar' (ss_resp s) = Inr msg"
  then show "writeResp H s = Returned (Write (ss_respWriter s) msg)" by (rule writeResp_success)
next
  show "errMarshalFailed = ''{\"code\": 13, \"message\": \"failed to marshal error message\"}''"
    by (simp add: errMarshalFailed_def)
qed simp_all

theorem marshal_failure_fallback_witness:
  "marshalerForContentType exampleHenv (ss_acceptType binaryStream)
     = Returned (proto_Marshal exampleHenv) \<and>
   ss_acceptType binaryStream \<noteq> [] \<and>
   proto_Marshal exampleHenv
       (Some (status_Proto (status_Convert (StatusErr NotFound ''no such greeting''))))
     = Inl (PlainErr ''required field not set'') \<and>
   rw_Status (ss_respWriter binaryStream) = None \<and>
   response_of (writeError exampleHenv binaryStream (StatusErr NotFound ''no such greeting''))
     = Some (Some 500, ''{\"code\": 13, \"message\": \"failed to marshal error message\"}'') \<and>
   proto_Marshal exampleHenv (ss_resp binaryStream) = Inl (PlainErr ''required field not set'') \<and>
   writeResp exampleHenv binaryStream
     = writeError exampleHenv binaryStream (PlainErr ''required field not set'') \<and>
   response_of (writeResp exampleHenv binaryStream)
     = Some (Some 500, ''{\"code\": 13, \"message\": \"failed to marshal error message\"}'') \<and>
   marshalerForContentType exampleHenv (ss_acceptType badStream)
     = Returned (protojson_Marshal exampleHenv) \<and>
   protojson_Marshal exampleHenv
       (Some (status_Proto (status_Convert (StatusErr NotFound ''no such greeting''))))
     = Inr ''{\"message\": \"no such greeting\"}'' \<and>
   response_of (writeError exampleHenv badStream (StatusErr NotFound ''no such greeting''))
     = Some (Some 404, ''{\"message\": \"no such greeting\"}'') \<and>
   response_of (writeResp exampleHenv badStream)
     = Some (Some 500, ''{\"message\": \"invalid UTF-8\"}'')"
proof -
  let ?nf = "StatusErr NotFound ''no such greeting''"
  let ?req = "PlainErr ''required field not set''"
  let ?utf = "PlainErr ''invalid UTF-8''"
  have a: "marshalerForContentType exampleHenv (ss_acceptType binaryStream)
     = Returned (proto_Marshal exampleHenv)"
    "ss_acceptType binaryStream \<noteq> []"
    "rw_Status (ss_respWriter binaryStream) = None"
    "rw_Body (ss_respWriter binaryStream) = []"
    by (simp_all add: marshalerForContentType_def binaryStream_def exampleStream_def
        exampleHenv_def emptyResponse_def)
  have b: "proto_Marshal exampleHenv x = Inl ?req" for x
    by (simp add: exampleHenv_def)
  have j: "marshalerForContentType exampleHenv (ss_acceptType badStream)
     = Returned (protojson_Marshal exampleHenv)"
    "ss_acceptType badStream \<noteq> []"
    "rw_Status (ss_respWriter badStream) = None"
    "rw_Body (ss_respWriter badStream) = []"
    "protojson_Marshal exampleHenv (ss_resp badStream) = Inl ?utf"
    by (simp_all add: marshalerForContentType_def badStream_def exampleStream_def
        exampleHenv_def emptyResponse_def)
  have k: "protojson_Marshal exampleHenv (Some (status_Proto (status_Convert ?nf)))
      = Inr ''{\"message\": \"no such greeting\"}''"
    "protojson_Marshal exampleHenv (Some (status_Proto (status_Convert ?utf)))
      = Inr ''{\"message\": \"invalid UTF-8\"}''"
    "HTTPStatusFromCode exampleHenv NotFound = 404" "HTTPStatusFromCode exampleHenv Unknown = 500"
    by (simp_all add: exampleHenv_def status_Proto_def)
  note A = marshal_failure_fallback [where s = binaryStream and H = exampleHenv
      and mar = "proto_Marshal exampleHenv" and err = ?nf and e = ?req
      and mar' = "proto_Marshal exampleHenv" and e' = ?req and buf = "[]" and msg = "[]"
      and c = NotFound and detail = "[]"]
  note B = marshal_failure_fallback [where s = binaryStream and H = exampleHenv
      and mar = "proto_Marshal exampleHenv" and err = ?req and e = ?req
      and mar' = "proto_Marshal exampleHenv" and e' = ?req and buf = "[]" and msg = "[]"
      and c = NotFound and detail = "[]"]
  note C = marshal_failure_fallback [where s = badStream and H = exampleHenv
      and mar = "protojson_Marshal exampleHenv" and err = ?nf and e = ?req
      and mar' = "protojson_Marshal exampleHenv" and e' = ?utf
      and buf = "''{\"message\": \"no such greeting\"}''" and msg = "[]"
      and c = NotFound and detail = "''no such greeting''"]
  note D = marshal_failure_fallback [where s = badStream and H = exampleHenv
      and mar = "protojson_Marshal exampleHenv" and err = ?utf and e = ?req
      and mar' = "protojson_Marshal exampleHenv" and e' = ?utf
      and buf = "''{\"message\": \"invalid UTF-8\"}''" and msg = "[]"
      and c = NotFound and detail = "''invalid UTF-8''"]
  have e1: "response_of (writeError exampleHenv binaryStream ?nf)
     = Some (Some 500, ''{\"code\": 13, \"message\": \"failed to marshal error message\"}'')"
    using A a b by (simp add: response_of_def Write_def WriteHeader_def SetHeader_def Let_def)
  have e2: "writeResp exampleHenv binaryStream = writeError exampleHenv binaryStream ?req"
    using A a b by simp
  have e3: "response_of (writeError exampleHenv binaryStream ?req)
     = Some (Some 500, ''{\"code\": 13, \"message\": \"failed to marshal error message\"}'')"
    using B a b by (simp add: response_of_def Write_def WriteHeader_def SetHeader_def Let_def)
  have e4: "response_of (writeError exampleHenv badStream ?nf)
     = Some (Some 404, ''{\"message\": \"no such greeting\"}'')"
    using C j k by (simp add: response_of_def Write_def WriteHeader_def SetHeader_def Let_def)
  have e5: "writeResp exampleHenv badStream = writeError exampleHenv badStream ?utf"
    using D j by simp
  have e6: "response_of (writeError exampleHenv badStream ?utf)
     = Some (Some 500, ''{\"message\": \"invalid UTF-8\"}'')"
    using D j k by (simp add: response_of_def Write_def WriteHeader_def SetHeader_def Let_def)
  show ?thesis using a b j(1) k(1) e1 e2 e3 e4 e5 e6 by simp
qed

subsection \<open>The rule table and the first match\<close>

lemma appendRules_eq:
  "appendRules md rules acc = acc @ map (\<lambda>r. \<lparr>desc = md, rule = r\<rparr>) rules"
  by (induction rules arbitrary: acc) simp_all

lemma loadMethods_eq:
  "loadMethods H tmpls pkg service mds acc =
     acc @ concat (map (\<lambda>md. map (\<lambda>r. \<lparr>desc = md, rule = r\<rparr>)
                                 (methodRules H tmpls pkg service md)) mds)"
  by (induction mds arbitrary: acc) (simp_all add: appendRules_eq)

lemma loadServices_eq:
  "loadServices H tmpls pkg sds acc =
     acc @ concat (map (\<lambda>sd. concat (map (\<lambda>md. map (\<lambda>r. \<lparr>desc = md, rule = r\<rparr>)
                                 (methodRules H tmpls pkg (sd_Name sd) md)) (sd_Methods sd))) sds)"
  by (induction sds arbitrary: acc) (simp_all add: loadMethods_eq)

lemma loadFiles_eq:
  "loadFiles H tmpls fds acc =
     acc @ concat (map (\<lambda>fd. concat (map (\<lambda>sd. concat (map (\<lambda>md.
              map (\<lambda>r. \<lparr>desc = md, rule = r\<rparr>)
                (methodRules H tmpls (fd_Package fd) (sd_Name sd) md))
              (sd_Methods sd))) (fd_Services fd))) fds)"
  by (induction fds arbitrary: acc) (simp_all add: loadServices_eq)

lemma loadHTTPRules_order:
  "loadHTTPRules H files tmpls =
     concat (map (\<lambda>fd. concat (map (\<lambda>sd. concat (map (\<lambda>md.
              map (\<lambda>r. \<lparr>desc = md, rule = r\<rparr>)
                (methodRules H tmpls (fd_Package fd) (sd_Name sd) md))
              (sd_Methods sd))) (fd_Services fd))) files)"
  by (simp add: loadHTTPRules_def loadFiles_eq)

lemma serveFirstMatch_none:
  "\<forall>m\<in>set ms. MatchRequest H (rule m) r = None \<Longrightarrow>
   serveFirstMatch H h ms w r = defaultHandler h w r"
  by (induction ms) simp_all

lemma serveFirstMatch_first:
  "\<forall>m\<in>set pre. MatchRequest H (rule m) r = None \<Longrightarrow>
   MatchRequest H (rule m) r = Some vs \<Longrightarrow>
   serveFirstMatch H h (pre @ m # post) w r = serveHTTPMethod H h m vs w r"
  by (induction pre) simp_all

lemma applyHandlerOptions_keep_default:
  "\<forall>opt\<in>set options. opt \<in> range httprule_WithLogger \<union> range WithRuleTemplates \<Longrightarrow>
   \<exists>h'. applyHandlerOptions options h = Inr h' \<and> defaultHandler h' = defaultHandler h"
proof (induction options arbitrary: h)
  case Nil
  then show ?case by simp
next
  case (Cons opt options)
  from Cons.prems have "opt \<in> range httprule_WithLogger \<union> range WithRuleTemplates" by simp
  then obtain h1 where o: "opt h = Inr h1" "defaultHandler h1 = defaultHandler h"
    by (auto simp: httprule_WithLogger_def WithRuleTemplates_def)
  from Cons.prems have "\<forall>opt\<in>set options. opt \<in> range httprule_WithLogger \<union> range WithRuleTemplates"
    by simp
  from Cons.IH [OF this, of h1] o show ?case by auto
qed

lemma NewHandler_fields:
  "NewHandler H files handler options = Inr h \<Longrightarrow>
   httpMethods h = loadHTTPRules H files (ruleTemplates h)"
  by (auto simp: NewHandler_def Let_def split: sum.splits if_splits)

lemma NewHandler_default:
  assumes "\<forall>opt\<in>set options. opt \<in> range httprule_WithLogger \<union> range WithRuleTemplates"
  shows "\<exists>h. NewHandler H files handler options = Inr h \<and> defaultHandler h = NotFoundHandler"
proof -
  let ?h0 = "\<lparr>httpMethods = [], grpcHandler = handler, h_log = None, ruleTemplates = [],
              defaultHandler = NotFoundHandler\<rparr>"
  from applyHandlerOptions_keep_default [OF assms, of ?h0]
  obtain h' where "applyHandlerOptions options ?h0 = Inr h'" "defaultHandler h' = NotFoundHandler"
    by auto
  then show ?thesis by (simp add: NewHandler_def Let_def)
qed

lemma NotFoundHandler_404:
  "rw_Status w = None \<Longrightarrow>
   response_of (NotFoundHandler w r) = Some (Some 404, rw_Body w @ ''404 page not found'' @ [CHR 0x0A])"
  by (simp add: NotFoundHandler_def response_of_def Write_def WriteHeader_def SetHeader_def Let_def)

lemma applyHandlerOptions_append:
  "applyHandlerOptions (xs @ ys) h =
     (case applyHandlerOptions xs h of Inl err \<Rightarrow> Inl err | Inr h' \<Rightarrow> applyHandlerOptions ys h')"
  by (induction xs arbitrary: h) (simp_all split: sum.splits)

lemma NewHandler_configured_default:
  "NewHandler H files handler (options @ [WithDefaultHandler fallback]) = Inr h \<Longrightarrow>
   defaultHandler h = fallback"
  by (auto simp: NewHandler_def Let_def applyHandlerOptions_append WithDefaultHandler_def
      split: sum.splits if_splits)

text \<open>
  C1. \<open>ServeHTTP\<close> dispatches to the first entry of the rule table whose rule matches
  the request, whatever entries follow it, and to the default handler when no entry
  matches. The table that \<open>NewHandler\<close> builds lists the rules file by file, service by
  service, method by method and, for one method, in the order of its rules. The default
  handler is the standard library's 404 handler unless \<open>WithDefaultHandler\<close> configures
  another.
\<close>

theorem first_match_wins:
  "((\<forall>x\<in>set pre. MatchRequest H (rule x) r = None) \<longrightarrow>
      MatchRequest H (rule m) r = Some vs \<longrightarrow>
      httpMethods h = pre @ m # post \<longrightarrow>
      ServeHTTP H h w r = serveHTTPMethod H h m vs w r) \<and>
   ((\<forall>x\<in>set (httpMethods h). MatchRequest H (rule x) r = None) \<longrightarrow>
      ServeHTTP H h w r = defaultHandler h w r) \<and>
   (NewHandler H files handler options = Inr h' \<longrightarrow>
      httpMethods h' =
        concat (map (\<lambda>fd. concat (map (\<lambda>sd. concat (map (\<lambda>md.
            map (\<lambda>rl. \<lparr>desc = md, rule = rl\<rparr>)
              (methodRules H (ruleTemplates h') (fd_Package fd) (sd_Name sd) md))
            (sd_Methods sd))) (fd_Services fd))) files)) \<and>
   ((\<forall>opt\<in>set options. opt \<in> range httprule_WithLogger \<union> range WithRuleTemplates) \<longrightarrow>
      (\<exists>h0. NewHandler H files handler options = Inr h0 \<and> defaultHandler h0 = NotFoundHandler)) \<and>
   (rw_Status w = None \<longrightarrow>
      response_of (NotFoundHandler w r)
        = Some (Some 404, rw_Body w @ ''404 page not found'' @ [CHR 0x0A])) \<and>
   (NewHandler H files handler (options @ [WithDefaultHandler fallback]) = Inr h'' \<longrightarrow>
      defaultHandler h'' = fallback)"
proof (intro conjI impI)
  assume "\<forall>x\<in>set pre. MatchRequest H (rule x) r = None" "MatchRequest H (rule m) r = Some vs"
    "httpMethods h = pre @ m # post"
  then show "ServeHTTP H h w r = serveHTTPMethod H h m vs w r"
    by (simp add: ServeHTTP_def serveFirstMatch_first)
next
  assume "\<forall>x\<in>set (httpMethods h). MatchRequest H (rule x) r = None"
  then show "ServeHTTP H h w r = defaultHandler h w r"
    by (simp add: ServeHTTP_def serveFirstMatch_none)
next
  assume "NewHandler H files handler options = Inr h'"
  then show "httpMethods h' =
        concat (map (\<lambda>fd. concat (map (\<lambda>sd. concat (map (\<lambda>md.
            map (\<lambda>rl. \<lparr>desc = md, rule = rl\<rparr>)
              (methodRules H (ruleTemplates h') (fd_Package fd) (sd_Name sd) md))
            (sd_Methods sd))) (fd_Services fd))) files)"
    by (simp add: NewHandler_fields loadHTTPRules_order)
next
  assume "\<forall>opt\<in>set options. opt \<in> range httprule_WithLogger \<union> range WithRuleTemplates"
  then show "\<exists>h0. NewHandler H files handler options = Inr h0 \<and> defaultHandler h0 = NotFoundHandler"
    by (rule NewHandler_default)
next
  assume "rw_Status w = None"
  then show "response_of (NotFoundHandler w r)
        = Some (Some 404, rw_Body w @ ''404 page not found'' @ [CHR 0x0A])"
    by (rule NotFoundHandler_404)
next
  assume "NewHandler H files handler (options @ [WithDefaultHandler fallback]) = Inr h''"
  then show "defaultHandler h'' = fallback" by (rule NewHandler_configured_default)
qed

lemma example_matches:
  "MatchRequest exampleHenv (rule helloMethod) (getRequest ''/v1/hello'' []) = Some []"
  "MatchRequest exampleHenv (rule catchMethod) (getRequest ''/v1/hello'' []) = Some []"
  "MatchRequest exampleHenv (rule helloMethod) (getRequest ''/v2/bye'' []) = None"
  by (simp_all add: exampleHenv_def exampleMatch_def helloMethod_def catchMethod_def getRequest_def)

lemma example_responses:
  "response_of (serveHTTPMethod exampleHenv literalFirst helloMethod [] emptyResponse
      (getRequest ''/v1/hello'' [])) = Some (Some 200, ''{\"@type\": \"pkg.Greeter.Hello\"}'')"
  "response_of (serveHTTPMethod exampleHenv wildcardFirst catchMethod [] emptyResponse
      (getRequest ''/v1/hello'' [])) = Some (Some 200, ''{\"@type\": \"pkg.Greeter.Catch\"}'')"
  by (simp_all add: serveHTTPMethod_def literalFirst_def wildcardFirst_def echoHandler_def
      dispatch_def RecvMsg_def getAcceptType_def getRequest_def Header_Get_def exampleHenv_def
      helloMethod_def catchMethod_def SendMsg_def writeResp_def marshalerForContentType_def
      response_of_def Write_def WriteHeader_def emptyResponse_def Let_def)

theorem first_match_wins_witness:
  "ServeHTTP exampleHenv literalFirst emptyResponse (getRequest ''/v1/hello'' [])
     = serveHTTPMethod exampleHenv literalFirst helloMethod [] emptyResponse
         (getRequest ''/v1/hello'' []) \<and>
   response_of (ServeHTTP exampleHenv literalFirst emptyResponse (getRequest ''/v1/hello'' []))
     = Some (Some 200, ''{\"@type\": \"pkg.Greeter.Hello\"}'') \<and>
   ServeHTTP exampleHenv wildcardFirst emptyResponse (getRequest ''/v1/hello'' [])
     = serveHTTPMethod exampleHenv wildcardFirst catchMethod [] emptyResponse
         (getRequest ''/v1/hello'' []) \<and>
   response_of (ServeHTTP exampleHenv wildcardFirst emptyResponse (getRequest ''/v1/hello'' []))
     = Some (Some 200, ''{\"@type\": \"pkg.Greeter.Catch\"}'') \<and>
   response_of (ServeHTTP exampleHenv twiceHandler emptyResponse (getRequest ''/v2/bye'' []))
     = Some (Some 404, ''404 page not found'' @ [CHR 0x0A]) \<and>
   NewHandler (exampleHenv\<lparr>Collect := exampleCollect\<rparr>) [twoMethodFile] echoHandler [] = Inr literalFirst \<and>
   NewHandler exampleHenv [] echoHandler [WithDefaultHandler teapotHandler]
     = Inr (wildcardFirst\<lparr>httpMethods := [], defaultHandler := teapotHandler\<rparr>)"
proof -
  let ?r = "getRequest ''/v1/hello'' []"
  let ?H = "exampleHenv\<lparr>Collect := exampleCollect\<rparr>"
  note A = first_match_wins [where pre = "[]" and H = exampleHenv and r = ?r and m = helloMethod
      and vs = "[]" and h = literalFirst and post = "[catchMethod]" and w = emptyResponse
      and files = "[twoMethodFile]" and handler = echoHandler and options = "[]"
      and h' = literalFirst and fallback = teapotHandler
      and h'' = "wildcardFirst\<lparr>httpMethods := [], defaultHandler := teapotHandler\<rparr>"]
  note B = first_match_wins [where pre = "[]" and H = exampleHenv and r = ?r and m = catchMethod
      and vs = "[]" and h = wildcardFirst and post = "[helloMethod]" and w = emptyResponse
      and files = "[]" and handler = echoHandler and options = "[]"
      and h' = literalFirst and fallback = teapotHandler
      and h'' = "wildcardFirst\<lparr>httpMethods := [], defaultHandler := teapotHandler\<rparr>"]
  note C = first_match_wins [where pre = "[]" and H = exampleHenv and r = "getRequest ''/v2/bye'' []"
      and m = catchMethod and vs = "[]" and h = twiceHandler and post = "[]" and w = emptyResponse
      and files = "[]" and handler = echoHandler and options = "[]"
      and h' = literalFirst and fallback = teapotHandler
      and h'' = "wildcardFirst\<lparr>httpMethods := [], defaultHandler := teapotHandler\<rparr>"]
  have hm: "httpMethods literalFirst = [] @ helloMethod # [catchMethod]"
    "httpMethods wildcardFirst = [] @ catchMethod # [helloMethod]"
    "httpMethods twiceHandler = [helloMethod]" "defaultHandler twiceHandler = NotFoundHandler"
    by (simp_all add: literalFirst_def wildcardFirst_def twiceHandler_def)
  have e1: "ServeHTTP exampleHenv literalFirst emptyResponse ?r
     = serveHTTPMethod exampleHenv literalFirst helloMethod [] emptyResponse ?r"
    using A example_matches(1) hm(1) by simp
  have e2: "ServeHTTP exampleHenv wildcardFirst emptyResponse ?r
     = serveHTTPMethod exampleHenv wildcardFirst catchMethod [] emptyResponse ?r"
    using B example_matches(2) hm(2) by simp
  have e3: "response_of (ServeHTTP exampleHenv twiceHandler emptyResponse (getRequest ''/v2/bye'' []))
     = Some (Some 404, ''404 page not found'' @ [CHR 0x0A])"
    using C example_matches(3) hm(3,4) by (simp add: emptyResponse_def)
  have e4: "NewHandler ?H [twoMethodFile] echoHandler [] = Inr literalFirst"
    by (simp add: NewHandler_def loadHTTPRules_def twoMethodFile_def methodRules_def
        exampleCollect_def helloMethod_def catchMethod_def literalFirst_def exampleHenv_def Let_def)
  have e5: "NewHandler exampleHenv [] echoHandler [WithDefaultHandler teapotHandler]
     = Inr (wildcardFirst\<lparr>httpMethods := [], defaultHandler := teapotHandler\<rparr>)"
    by (simp add: NewHandler_def loadHTTPRules_def WithDefaultHandler_def wildcardFirst_def Let_def)
  show ?thesis using e1 e2 e3 e4 e5 example_responses by simp
qed

subsection \<open>Fallback rules\<close>

lemma length_interpolateHTTPRules:
  "length (interpolateHTTPRules tmpls pkg service meth) = length tmpls"
  by (induction tmpls) simp_all

lemma nth_interpolateHTTPRules:
  "i < length tmpls \<Longrightarrow>
   interpolateHTTPRules tmpls pkg service meth ! i
     = interpolateRule (tmpls ! i) pkg service meth"
proof (induction tmpls arbitrary: i)
  case Nil
  then show ?case by simp
next
  case (Cons t tmpls)
  then show ?case by (cases i) simp_all
qed

lemma interpolatePattern_verb_path:
  "map_option patternVerbPath (interpolatePattern pat pkg service meth)
     = map_option (\<lambda>p. (fst (patternVerbPath p),
                          interpolate (snd (patternVerbPath p)) pkg service meth)) pat"
  by (induction pat pkg service meth rule: interpolatePattern.induct) simp_all

lemma interpolateRule_fields:
  "Selector (interpolateRule t pkg service meth) = Selector t"
  "Body (interpolateRule t pkg service meth) = Body t"
  "ResponseBody (interpolateRule t pkg service meth) = ResponseBody t"
  "AdditionalBindings (interpolateRule t pkg service meth) = AdditionalBindings t"
  "Pattern (interpolateRule t pkg service meth) = interpolatePattern (Pattern t) pkg service meth"
  by (cases t; simp)+

lemma methodRules_cases:
  "Collect H md = [] \<Longrightarrow> tmpls \<noteq> [] \<Longrightarrow>
     methodRules H tmpls pkg service md = interpolateHTTPRules tmpls pkg service (md_Name md)"
  "Collect H md \<noteq> [] \<Longrightarrow> methodRules H tmpls pkg service md = Collect H md"
  "tmpls = [] \<Longrightarrow> methodRules H tmpls pkg service md = Collect H md"
  by (simp_all add: methodRules_def Let_def)

text \<open>
  C6. For a method that declares no rule, with templates configured, the rules of the
  method are the interpolated templates: as many as there are templates, the i-th made
  from the i-th template. An interpolated rule is its template with the path of the
  pattern replaced: \<open>{package}\<close>, \<open>{service}\<close> and \<open>{method}\<close> are replaced, one after
  the other, by the package, the service name and the method name; the verb, the
  selector, the body selectors and the additional bindings are the template's. A method
  that declares a rule keeps its own rules, and without templates nothing is synthesized.
  The rules of the method enter the rule table in this order.
\<close>

theorem fallback_rules:
  "(Collect H md = [] \<longrightarrow> tmpls \<noteq> [] \<longrightarrow>
      length (methodRules H tmpls pkg service md) = length tmpls \<and>
      (\<forall>i<length tmpls.
         methodRules H tmpls pkg service md ! i
           = interpolateRule (tmpls ! i) pkg service (md_Name md))) \<and>
   (Collect H md \<noteq> [] \<longrightarrow> methodRules H tmpls pkg service md = Collect H md) \<and>
   (tmpls = [] \<longrightarrow> methodRules H tmpls pkg service md = Collect H md) \<and>
   loadMethods H tmpls pkg service [md] acc
     = acc @ map (\<lambda>rl. \<lparr>desc = md, rule = rl\<rparr>) (methodRules H tmpls pkg service md) \<and>
   Selector (interpolateRule t pkg service meth) = Selector t \<and>
   Body (interpolateRule t pkg service meth) = Body t \<and>
   ResponseBody (interpolateRule t pkg service meth) = ResponseBody t \<and>
   AdditionalBindings (interpolateRule t pkg service meth) = AdditionalBindings t \<and>
   map_option patternVerbPath (Pattern (interpolateRule t pkg service meth))
     = map_option (\<lambda>p. (fst (patternVerbPath p),
                          interpolate (snd (patternVerbPath p)) pkg service meth)) (Pattern t) \<and>
   interpolate path pkg service meth
     = ReplaceAll (ReplaceAll (ReplaceAll path ''{package}'' pkg) ''{service}'' service)
         ''{method}'' meth"
proof (intro conjI impI allI)
  assume a: "Collect H md = []" "tmpls \<noteq> []"
  show "length (methodRules H tmpls pkg service md) = length tmpls"
    using a by (simp add: methodRules_cases(1) length_interpolateHTTPRules)
  fix i assume "i < length tmpls"
  then show "methodRules H tmpls pkg service md ! i
           = interpolateRule (tmpls ! i) pkg service (md_Name md)"
    using a by (simp add: methodRules_cases(1) nth_interpolateHTTPRules)
next
  assume "Collect H md \<noteq> []"
  then show "methodRules H tmpls pkg service md = Collect H md" by (rule methodRules_cases(2))
next
  assume "tmpls = []"
  then show "methodRules H tmpls pkg service md = Collect H md" by (rule methodRules_cases(3))
next
  show "loadMethods H tmpls pkg service [md] acc
     = acc @ map (\<lambda>rl. \<lparr>desc = md, rule = rl\<rparr>) (methodRules H tmpls pkg service md)"
    by (simp add: loadMethods_eq)
next
  show "map_option patternVerbPath (Pattern (interpolateRule t pkg service meth))
     = map_option (\<lambda>p. (fst (patternVerbPath p),
                          interpolate (snd (patternVerbPath p)) pkg service meth)) (Pattern t)"
    by (simp add: interpolateRule_fields(5) interpolatePattern_verb_path)
next
  show "interpolate path pkg service meth
     = ReplaceAll (ReplaceAll (ReplaceAll path ''{package}'' pkg) ''{service}'' service)
         ''{method}'' meth"
    by (simp add: interpolate_def Let_def)
qed (simp_all add: interpolateRule_fields)

lemma ReplaceAll_example:
  "ReplaceAll ''/api/{package}.{service}/{method}'' ''{package}'' ''pkg''
     = ''/api/pkg.{service}/{method}''"
  "ReplaceAll ''/api/pkg.{service}/{method}'' ''{service}'' ''Greeter''
     = ''/api/pkg.Greeter/{method}''"
  "ReplaceAll ''/api/pkg.Greeter/{method}'' ''{method}'' ''Hello'' = ''/api/pkg.Greeter/Hello''"
  "ReplaceAll ''/{method}'' ''{package}'' ''pkg'' = ''/{method}''"
  "ReplaceAll ''/{method}'' ''{service}'' ''Greeter'' = ''/{method}''"
  "ReplaceAll ''/{method}'' ''{method}'' ''Hello'' = ''/Hello''"
  by (simp_all add: ReplaceAll.simps)

theorem fallback_rules_witness:
  "Collect exampleHenv (desc helloMethod) = [] \<and>
   methodRules exampleHenv [postTemplate, customTemplate] ''pkg'' ''Greeter'' (desc helloMethod)
     = [HttpRule [] (Some (HttpRule_Post ''/api/pkg.Greeter/Hello'')) ''*'' [] [],
        HttpRule [] (Some (HttpRule_Custom (CustomHttpPattern ''HEAD'' ''/Hello''))) [] [] []] \<and>
   Collect (exampleHenv\<lparr>Collect := exampleCollect\<rparr>) (desc helloMethod) \<noteq> [] \<and>
   methodRules (exampleHenv\<lparr>Collect := exampleCollect\<rparr>) [postTemplate, customTemplate]
       ''pkg'' ''Greeter'' (desc helloMethod) = [rule helloMethod] \<and>
   methodRules exampleHenv [] ''pkg'' ''Greeter'' (desc helloMethod) = []"
proof -
  let ?md = "desc helloMethod"
  let ?ts = "[postTemplate, customTemplate]"
  let ?H = "exampleHenv\<lparr>Collect := exampleCollect\<rparr>"
  note A = fallback_rules [where H = exampleHenv and md = ?md and tmpls = ?ts and pkg = "''pkg''"
      and service = "''Greeter''" and acc = "[]" and t = postTemplate and meth = "''Hello''"
      and path = "''/api/{package}.{service}/{method}''"]
  note B = fallback_rules [where H = ?H and md = ?md and tmpls = ?ts and pkg = "''pkg''"
      and service = "''Greeter''" and acc = "[]" and t = postTemplate and meth = "''Hello''"
      and path = "''/api/{package}.{service}/{method}''"]
  note C = fallback_rules [where H = exampleHenv and md = ?md and tmpls = "[]" and pkg = "''pkg''"
      and service = "''Greeter''" and acc = "[]" and t = customTemplate and meth = "''Hello''"
      and path = "''/{method}''"]
  have c: "Collect exampleHenv ?md = []" "Collect ?H ?md = [rule helloMethod]"
    "md_Name ?md = ''Hello''"
    by (simp_all add: exampleHenv_def exampleCollect_def helloMethod_def)
  have i1: "interpolateRule postTemplate ''pkg'' ''Greeter'' ''Hello''
      = HttpRule [] (Some (HttpRule_Post ''/api/pkg.Greeter/Hello'')) ''*'' [] []"
    using A ReplaceAll_example(1-3) by (simp add: postTemplate_def)
  have i2: "interpolateRule customTemplate ''pkg'' ''Greeter'' ''Hello''
      = HttpRule [] (Some (HttpRule_Custom (CustomHttpPattern ''HEAD'' ''/Hello''))) [] [] []"
    using C ReplaceAll_example(4-6) by (simp add: customTemplate_def)
  have l: "length (methodRules exampleHenv ?ts ''pkg'' ''Greeter'' ?md) = 2"
    and n: "\<forall>i<2. methodRules exampleHenv ?ts ''pkg'' ''Greeter'' ?md ! i
        = interpolateRule (?ts ! i) ''pkg'' ''Greeter'' ''Hello''"
    using A c by simp_all
  have n0: "methodRules exampleHenv ?ts ''pkg'' ''Greeter'' ?md ! 0
      = HttpRule [] (Some (HttpRule_Post ''/api/pkg.Greeter/Hello'')) ''*'' [] []"
    using n i1 by simp
  have n1: "methodRules exampleHenv ?ts ''pkg'' ''Greeter'' ?md ! 1
      = HttpRule [] (Some (HttpRule_Custom (CustomHttpPattern ''HEAD'' ''/Hello''))) [] [] []"
    using n i2 by simp
  have e1: "methodRules exampleHenv ?ts ''pkg'' ''Greeter'' ?md
     = [HttpRule [] (Some (HttpRule_Post ''/api/pkg.Greeter/Hello'')) ''*'' [] [],
        HttpRule [] (Some (HttpRule_Custom (CustomHttpPattern ''HEAD'' ''/Hello''))) [] [] []]"
    using l n0 n1 by (auto simp: list_eq_iff_nth_eq less_Suc_eq numeral_2_eq_2)
  have e2: "methodRules ?H ?ts ''pkg'' ''Greeter'' ?md = [rule helloMethod]"
    using B c by simp
  have e3: "methodRules exampleHenv [] ''pkg'' ''Greeter'' ?md = []"
    using C c by simp
  show ?thesis using c e1 e2 e3 by simp
qed

subsection \<open>Errors while the descriptors are loaded\<close>

lemma registerFiles_frame:
  "s_fs (fst (registerFiles E fds s seen)) = s_fs s \<and>
   s_protosets (fst (registerFiles E fds s seen)) = s_protosets s"
  by (induction fds arbitrary: s seen) (simp_all split: sum.splits)

lemma registerFiles_seen:
  "snd (registerFiles E fds s seen) = seen \<union> set (map fd_Path fds)"
  by (induction fds arbitrary: s seen) (auto split: sum.splits)

lemma addFiles_error:
  "(addFiles E s b seen = Inl e) =
     (proto_Unmarshal E b = Inl e \<or>
      (\<exists>fds. proto_Unmarshal E b = Inr fds \<and> protodesc_NewFiles E fds = Inl e))"
  by (auto simp: addFiles_def split: sum.splits)

lemma addFiles_result:
  assumes "addFiles E s b seen = Inr (s', seen')"
  shows "s_fs s' = s_fs s \<and> s_protosets s' = s_protosets s \<and>
   (\<exists>fds files. proto_Unmarshal E b = Inr fds \<and> protodesc_NewFiles E fds = Inr files \<and>
      seen' = seen \<union> set (map fd_Path files))"
proof -
  from assms obtain fds files where u: "proto_Unmarshal E b = Inr fds"
    and n: "protodesc_NewFiles E fds = Inr files"
    and r: "registerFiles E files s seen = (s', seen')"
    by (auto simp: addFiles_def split: sum.splits)
  from r have "s' = fst (registerFiles E files s seen)" "seen' = snd (registerFiles E files s seen)"
    by simp_all
  with u n show ?thesis
    using registerFiles_frame [of E files s seen] registerFiles_seen [of E files s seen]
    by auto
qed

text \<open>
  Two runs that differ in what \<open>RegisterFile\<close> answers, from servers with the same file
  system and protosets, fail with the same error or both succeed, with the same paths
  seen.
\<close>

lemma outline_simps:
  "outline (Inl e) = Inl e" "outline (Inr (s, seen)) = Inr ((s_fs s, s_protosets s), seen)"
  by (simp_all add: outline_def)

lemma addFiles_outline:
  "outline (addFiles E s b seen) =
     (case proto_Unmarshal E b of
        Inl e \<Rightarrow> Inl e
      | Inr fds \<Rightarrow>
          (case protodesc_NewFiles E fds of
             Inl e \<Rightarrow> Inl e
           | Inr files \<Rightarrow> Inr ((s_fs s, s_protosets s), seen \<union> set (map fd_Path files))))"
proof (cases "addFiles E s b seen")
  case (Inl e)
  then show ?thesis
    using addFiles_error [of E s b seen e] by (auto simp: outline_simps split: sum.splits)
next
  case (Inr p)
  obtain s' seen' where p: "p = (s', seen')" by (cases p)
  from addFiles_result [of E s b seen s' seen'] Inr p show ?thesis
    by (auto simp: outline_simps)
qed

lemma addFiles_independent:
  assumes "s_fs s = s_fs t" "s_protosets s = s_protosets t"
  shows "outline (addFiles (E\<lparr>RegisterFile := reg\<rparr>) s b seen) = outline (addFiles E t b seen)"
  using assms by (simp add: addFiles_outline split: sum.splits)

lemma outline_eq_InrD:
  "outline x = outline y \<Longrightarrow> x = Inr (s, seen) \<Longrightarrow>
   \<exists>t. y = Inr (t, seen) \<and> s_fs t = s_fs s \<and> s_protosets t = s_protosets s"
  by (cases y) (auto simp: outline_def split: sum.splits prod.splits)

lemma outline_eq_InlD: "outline x = outline y \<Longrightarrow> x = Inl e \<Longrightarrow> y = Inl e"
  by (cases y) (auto simp: outline_def split: sum.splits prod.splits)

lemma loadNamed_independent:
  "s_fs s = s_fs t \<Longrightarrow> s_protosets s = s_protosets t \<Longrightarrow>
   outline (loadNamed (E\<lparr>RegisterFile := reg\<rparr>) ps s seen) = outline (loadNamed E ps t seen)"
proof (induction ps arbitrary: s t seen)
  case Nil
  then show ?case by (simp add: outline_simps)
next
  case (Cons p ps)
  show ?case
  proof (cases "os_ReadFile E p")
    case (Inl e)
    then show ?thesis by (simp add: outline_simps)
  next
    case (Inr b)
    note o = addFiles_independent [OF Cons.prems, where E = E and reg = reg and b = b and seen = seen]
    show ?thesis
    proof (cases "addFiles (E\<lparr>RegisterFile := reg\<rparr>) s b seen")
      case (Inl e)
      with o have "addFiles E t b seen = Inl e" by (rule outline_eq_InlD)
      with Inl Inr show ?thesis by (simp add: outline_simps)
    next
      case r: (Inr q)
      obtain s' seen' where q: "q = (s', seen')" by (cases q)
      from outline_eq_InrD [OF o, of s' seen'] r q
      obtain t' where t': "addFiles E t b seen = Inr (t', seen')" "s_fs t' = s_fs s'"
        "s_protosets t' = s_protosets s'" by auto
      from Cons.IH [of s' t' seen'] t' r q Inr show ?thesis by simp
    qed
  qed
qed

lemma loadMatches_independent:
  "s_fs s = s_fs t \<Longrightarrow> s_protosets s = s_protosets t \<Longrightarrow>
   outline (loadMatches (E\<lparr>RegisterFile := reg\<rparr>) ms s seen) = outline (loadMatches E ms t seen)"
proof (induction ms arbitrary: s t seen)
  case Nil
  then show ?case by (simp add: outline_simps)
next
  case (Cons m ms)
  show ?case
  proof (cases "HasPrefix m ''_''")
    case True
    with Cons show ?thesis by simp
  next
    case False
    show ?thesis
    proof (cases "fs_ReadFile (s_fs t) m")
      case (Inl e)
      with False Cons.prems show ?thesis by (simp add: outline_simps)
    next
      case (Inr b)
      note o = addFiles_independent [OF Cons.prems, where E = E and reg = reg and b = b and seen = seen]
      show ?thesis
      proof (cases "addFiles (E\<lparr>RegisterFile := reg\<rparr>) s b seen")
        case (Inl e)
        with o have "addFiles E t b seen = Inl e" by (rule outline_eq_InlD)
        with Inl Inr False Cons.prems show ?thesis by (simp add: outline_simps)
      next
        case r: (Inr q)
        obtain s' seen' where q: "q = (s', seen')" by (cases q)
        from outline_eq_InrD [OF o, of s' seen'] r q
        obtain t' where t': "addFiles E t b seen = Inr (t', seen')" "s_fs t' = s_fs s'"
          "s_protosets t' = s_protosets s'" by auto
        from Cons.IH [of s' t' seen'] t' r q Inr False Cons.prems show ?thesis by simp
      qed
    qed
  qed
qed

lemma loadProtosets_independent:
  "(loadProtosets (E\<lparr>RegisterFile := reg\<rparr>) s = Inl e) = (loadProtosets E s = Inl e)"
proof -
  note n = loadNamed_independent [where s = s and t = s and E = E and reg = reg
      and ps = "s_protosets s" and seen = "{}", OF refl refl]
  show ?thesis
  proof (cases "loadNamed (E\<lparr>RegisterFile := reg\<rparr>) (s_protosets s) s {}")
    case (Inl e')
    with n have "loadNamed E (s_protosets s) s {} = Inl e'" by (rule outline_eq_InlD)
    with Inl show ?thesis by (simp add: loadProtosets_def)
  next
    case r: (Inr q)
    obtain s1 seen where q: "q = (s1, seen)" by (cases q)
    from outline_eq_InrD [OF n, of s1 seen] r q
    obtain t1 where t1: "loadNamed E (s_protosets s) s {} = Inr (t1, seen)" "s_fs t1 = s_fs s1"
      "s_protosets t1 = s_protosets s1" by auto
    show ?thesis
    proof (cases "fs_Glob (s_fs s1) ''*.pb''")
      case (Inl e')
      with r q t1 show ?thesis by (simp add: loadProtosets_def)
    next
      case g: (Inr ms)
      note m = loadMatches_independent [where s = s1 and t = t1 and E = E and reg = reg
        and ms = ms and seen = seen, OF t1(2)[symmetric] t1(3)[symmetric]]
      show ?thesis
      proof (cases "loadMatches (E\<lparr>RegisterFile := reg\<rparr>) ms s1 seen")
        case (Inl e')
        with m have "loadMatches E ms t1 seen = Inl e'" by (rule outline_eq_InlD)
        with Inl r q t1 g show ?thesis by (simp add: loadProtosets_def)
      next
        case r2: (Inr q2)
        obtain s2 seen2 where q2: "q2 = (s2, seen2)" by (cases q2)
        from outline_eq_InrD [OF m, of s2 seen2] r2 q2
        obtain t2 where "loadMatches E ms t1 seen = Inr (t2, seen2)" by auto
        with r2 q2 r q t1 g show ?thesis by (simp add: loadProtosets_def)
      qed
    qed
  qed
qed

lemma NewServer_independent:
  "(NewServer (E\<lparr>RegisterFile := reg\<rparr>) vfs options = Inl e) = (NewServer E vfs options = Inl e)"
proof (cases "applyOptions options \<lparr>s_log = [], s_files = [], s_fs = vfs, s_protosets = []\<rparr>")
  case (Inl e')
  then show ?thesis by (simp add: NewServer_def)
next
  case (Inr s)
  have "(NewServer E' vfs options = Inl e) = (loadProtosets E' s = Inl e)"
    for E' :: "('a, 'b) env"
    using Inr by (simp add: NewServer_def split: sum.splits)
  then show ?thesis by (simp add: loadProtosets_independent)
qed

lemma loadNamed_abort:
  "loadNamed E pre s seen = Inr (s', seen') \<Longrightarrow> os_ReadFile E p = Inr b \<Longrightarrow>
   addFiles E s' b seen' = Inl e \<Longrightarrow> loadNamed E (pre @ p # post) s seen = Inl e"
  by (induction pre arbitrary: s seen) (auto split: sum.splits)

lemma loadMatches_abort:
  "loadMatches E pre s seen = Inr (s', seen') \<Longrightarrow> \<not> HasPrefix m ''_'' \<Longrightarrow>
   fs_ReadFile (s_fs s') m = Inr b \<Longrightarrow> addFiles E s' b seen' = Inl e \<Longrightarrow>
   loadMatches E (pre @ m # post) s seen = Inl e"
  by (induction pre arbitrary: s seen) (auto split: sum.splits)

lemma NewServer_abort_named:
  "applyOptions options \<lparr>s_log = [], s_files = [], s_fs = vfs, s_protosets = []\<rparr> = Inr s1 \<Longrightarrow>
   s_protosets s1 = pre @ p # post \<Longrightarrow> loadNamed E pre s1 {} = Inr (s', seen') \<Longrightarrow>
   os_ReadFile E p = Inr b \<Longrightarrow> addFiles E s' b seen' = Inl e \<Longrightarrow>
   NewServer E vfs options = Inl e"
  using loadNamed_abort [of E pre s1 "{}" s' seen' p b e post]
  by (simp add: NewServer_def loadProtosets_def)

lemma NewServer_abort_glob:
  "applyOptions options \<lparr>s_log = [], s_files = [], s_fs = vfs, s_protosets = []\<rparr> = Inr s1 \<Longrightarrow>
   loadNamed E (s_protosets s1) s1 {} = Inr (s2, seen2) \<Longrightarrow>
   fs_Glob (s_fs s2) ''*.pb'' = Inr (pre @ m # post) \<Longrightarrow>
   loadMatches E pre s2 seen2 = Inr (s', seen') \<Longrightarrow> \<not> HasPrefix m ''_'' \<Longrightarrow>
   fs_ReadFile (s_fs s') m = Inr b \<Longrightarrow> addFiles E s' b seen' = Inl e \<Longrightarrow>
   NewServer E vfs options = Inl e"
  using loadMatches_abort [of E pre s2 seen2 s' seen' m b e post]
  by (simp add: NewServer_def loadProtosets_def)

lemma registerFiles_logged:
  "fd_Path fd \<notin> seen \<Longrightarrow> RegisterFile E (s_files s) fd = Inl e \<Longrightarrow>
   registerFiles E (fd # fds) s seen
     = registerFiles E fds (s\<lparr>s_log := s_log s @ [(fd_Package fd, e)]\<rparr>) (insert (fd_Path fd) seen)"
  by simp

text \<open>
  C3, as the claim states it, fails for the error the claim names. With the registry of
  the spec, \<open>app.proto\<close> is visited before the file it imports, its registration fails
  with \<open>MissingDependency\<close>, and \<open>NewServer\<close> returns a server all the same: the error is
  in the log, \<open>app.proto\<close> is not in the registry, and a later call of its method gets
  \<open>Unimplemented\<close>.
\<close>

theorem load_errors_counterexample:
  "RegisterFile depEnv [] appFile = Inl (PlainErr ''MissingDependency'') \<and>
   NewServer depEnv emptyFS [WithProtosets [''dep.pb'']]
     = Inr \<lparr>s_log = [(''app'', PlainErr ''MissingDependency'')], s_files = [baseFile],
            s_fs = emptyFS, s_protosets = [''dep.pb'']\<rparr> \<and>
   UnknownHandler depEnv
       \<lparr>s_log = [(''app'', PlainErr ''MissingDependency'')], s_files = [baseFile],
        s_fs = emptyFS, s_protosets = [''dep.pb'']\<rparr> ''/app.App/Run''
     = Returned (Some (StatusErr Unimplemented ''method not found: app.App.Run''), ''/app.App/Run'')"
proof -
  have a: "RegisterFile depEnv [] appFile = Inl (PlainErr ''MissingDependency'')"
    by (simp add: depEnv_def Register_def appFile_def)
  have b: "RegisterFile depEnv [] baseFile = Inr [baseFile]"
    by (simp add: depEnv_def Register_def baseFile_def)
  have p: "fd_Path appFile = ''app.proto''" "fd_Path baseFile = ''base.proto''"
    "fd_Package appFile = ''app''"
    by (simp_all add: appFile_def baseFile_def)
  have r: "registerFiles depEnv [appFile, baseFile]
      \<lparr>s_log = [], s_files = [], s_fs = emptyFS, s_protosets = [''dep.pb'']\<rparr> {}
    = (\<lparr>s_log = [(''app'', PlainErr ''MissingDependency'')], s_files = [baseFile],
            s_fs = emptyFS, s_protosets = [''dep.pb'']\<rparr>, {''app.proto'', ''base.proto''})"
    by (simp add: a b p insert_commute)
  have u: "os_ReadFile depEnv ''dep.pb'' = Inr ''dep''"
    "proto_Unmarshal depEnv ''dep'' = Inr [appFile, baseFile]"
    "protodesc_NewFiles depEnv [appFile, baseFile] = Inr [appFile, baseFile]"
    by (simp_all add: depEnv_def)
  have g: "fs_Glob emptyFS ''*.pb'' = Inr []"
    by (simp add: emptyFS_def)
  have n: "NewServer depEnv emptyFS [WithProtosets [''dep.pb'']]
     = Inr \<lparr>s_log = [(''app'', PlainErr ''MissingDependency'')], s_files = [baseFile],
            s_fs = emptyFS, s_protosets = [''dep.pb'']\<rparr>"
    by (simp add: NewServer_def WithProtosets_def loadProtosets_def addFiles_def u r g
        del: registerFiles.simps)
  have k: "ReplaceAll ''app.App/Run'' ''/'' ''.'' = ''app.App.Run''"
    by (simp add: ReplaceAll_char)
  have l: "lookupMethod depEnv
       \<lparr>s_log = [(''app'', PlainErr ''MissingDependency'')], s_files = [baseFile],
        s_fs = emptyFS, s_protosets = [''dep.pb'']\<rparr> ''app.App.Run'' = None"
    by (simp add: lookupMethod_def depEnv_def FindByName_def baseFile_def)
  have gm: "grpc_Method depEnv ''/app.App/Run'' = Some ''/app.App/Run''"
    by (simp add: depEnv_def)
  have h: "UnknownHandler depEnv
       \<lparr>s_log = [(''app'', PlainErr ''MissingDependency'')], s_files = [baseFile],
        s_fs = emptyFS, s_protosets = [''dep.pb'']\<rparr> ''/app.App/Run''
     = Returned (Some (StatusErr Unimplemented ''method not found: app.App.Run''), ''/app.App/Run'')"
    by (simp add: UnknownHandler_def gm k l Let_def)
  show ?thesis using a n h by simp
qed

text \<open>
  C3, amended. An error of decoding a descriptor set (\<open>proto.Unmarshal\<close>) or of building
  its files (\<open>protodesc.NewFiles\<close>) is returned by \<open>addFiles\<close>, and \<open>NewServer\<close> returns
  it, for a named protoset and for one found by the glob alike. An error of registering
  a single file is appended to the log and the next file is visited; whether
  \<open>NewServer\<close> fails, and with which error, is the same whatever \<open>RegisterFile\<close> answers.
\<close>

theorem load_errors:
  "((proto_Unmarshal E b = Inl e \<or>
     (\<exists>fds. proto_Unmarshal E b = Inr fds \<and> protodesc_NewFiles E fds = Inl e)) \<longrightarrow>
      addFiles E s b seen = Inl e) \<and>
   (applyOptions options \<lparr>s_log = [], s_files = [], s_fs = vfs, s_protosets = []\<rparr> = Inr s1 \<longrightarrow>
      s_protosets s1 = pre @ p # post \<longrightarrow> loadNamed E pre s1 {} = Inr (s', seen') \<longrightarrow>
      os_ReadFile E p = Inr b \<longrightarrow> addFiles E s' b seen' = Inl e \<longrightarrow>
      NewServer E vfs options = Inl e) \<and>
   (applyOptions options \<lparr>s_log = [], s_files = [], s_fs = vfs, s_protosets = []\<rparr> = Inr s1 \<longrightarrow>
      loadNamed E (s_protosets s1) s1 {} = Inr (s2, seen2) \<longrightarrow>
      fs_Glob (s_fs s2) ''*.pb'' = Inr (mpre @ m # mpost) \<longrightarrow>
      loadMatches E mpre s2 seen2 = Inr (s', seen') \<longrightarrow> \<not> HasPrefix m ''_'' \<longrightarrow>
      fs_ReadFile (s_fs s') m = Inr b \<longrightarrow> addFiles E s' b seen' = Inl e \<longrightarrow>
      NewServer E vfs options = Inl e) \<and>
   ((NewServer (E\<lparr>RegisterFile := reg\<rparr>) vfs options = Inl e) = (NewServer E vfs options = Inl e)) \<and>
   (fd_Path fd \<notin> seen \<longrightarrow> RegisterFile E (s_files s) fd = Inl e \<longrightarrow>
      registerFiles E (fd # fds) s seen
        = registerFiles E fds (s\<lparr>s_log := s_log s @ [(fd_Package fd, e)]\<rparr>)
            (insert (fd_Path fd) seen))"
proof (intro conjI impI)
  assume "proto_Unmarshal E b = Inl e \<or>
     (\<exists>fds. proto_Unmarshal E b = Inr fds \<and> protodesc_NewFiles E fds = Inl e)"
  then show "addFiles E s b seen = Inl e" by (simp add: addFiles_error)
next
  assume "applyOptions options \<lparr>s_log = [], s_files = [], s_fs = vfs, s_protosets = []\<rparr> = Inr s1"
    "s_protosets s1 = pre @ p # post" "loadNamed E pre s1 {} = Inr (s', seen')"
    "os_ReadFile E p = Inr b" "addFiles E s' b seen' = Inl e"
  then show "NewServer E vfs options = Inl e" by (rule NewServer_abort_named)
next
  assume "applyOptions options \<lparr>s_log = [], s_files = [], s_fs = vfs, s_protosets = []\<rparr> = Inr s1"
    "loadNamed E (s_protosets s1) s1 {} = Inr (s2, seen2)"
    "fs_Glob (s_fs s2) ''*.pb'' = Inr (mpre @ m # mpost)"
    "loadMatches E mpre s2 seen2 = Inr (s', seen')" "\<not> HasPrefix m ''_''"
    "fs_ReadFile (s_fs s') m = Inr b" "addFiles E s' b seen' = Inl e"
  then show "NewServer E vfs options = Inl e" by (rule NewServer_abort_glob)
next
  show "(NewServer (E\<lparr>RegisterFile := reg\<rparr>) vfs options = Inl e) = (NewServer E vfs options = Inl e)"
    by (rule NewServer_independent)
next
  assume "fd_Path fd \<notin> seen" "RegisterFile E (s_files s) fd = Inl e"
  then show "registerFiles E (fd # fds) s seen
        = registerFiles E fds (s\<lparr>s_log := s_log s @ [(fd_Package fd, e)]\<rparr>)
            (insert (fd_Path fd) seen)"
    by (rule registerFiles_logged)
qed

theorem load_errors_witness:
  "proto_Unmarshal depEnv ''junk'' = Inl (PlainErr ''cannot parse'') \<and>
   addFiles depEnv exampleServer ''junk'' {} = Inl (PlainErr ''cannot parse'') \<and>
   NewServer depEnv emptyFS [WithProtosets [''junk.pb'']] = Inl (PlainErr ''cannot parse'') \<and>
   NewServer depEnv junkFS [] = Inl (PlainErr ''cannot parse'') \<and>
   NewServer (depEnv\<lparr>RegisterFile := (\<lambda>files fd. Inl (PlainErr ''conflict''))\<rparr>) junkFS []
     = Inl (PlainErr ''cannot parse'') \<and>
   registerFiles depEnv [appFile] \<lparr>s_log = [], s_files = [], s_fs = emptyFS, s_protosets = []\<rparr> {}
     = (\<lparr>s_log = [(''app'', PlainErr ''MissingDependency'')], s_files = [], s_fs = emptyFS,
         s_protosets = []\<rparr>, {''app.proto''})"
proof -
  let ?e = "PlainErr ''cannot parse''"
  let ?init = "\<lambda>vfs. \<lparr>s_log = [], s_files = [], s_fs = vfs, s_protosets = []\<rparr>"
  let ?s1 = "\<lparr>s_log = [], s_files = [], s_fs = emptyFS, s_protosets = [''junk.pb'']\<rparr>"
  have u: "proto_Unmarshal depEnv ''junk'' = Inl ?e" "os_ReadFile depEnv ''junk.pb'' = Inr ''junk''"
    by (simp_all add: depEnv_def)
  note A = load_errors [where E = depEnv and b = "''junk''" and e = ?e and s = exampleServer
      and seen = "{}" and options = "[WithProtosets [''junk.pb'']]" and vfs = emptyFS
      and ?s1.0 = ?s1 and pre = "[]" and p = "''junk.pb''" and post = "[]" and s' = ?s1
      and seen' = "{}" and ?s2.0 = ?s1 and ?seen2.0 = "{}" and mpre = "[]" and m = "''junk.pb''"
      and mpost = "[]" and reg = "\<lambda>files fd. Inl (PlainErr ''conflict'')"
      and fd = appFile and fds = "[]"]
  have a1: "addFiles depEnv exampleServer ''junk'' {} = Inl ?e"
    using A u by simp
  note B = load_errors [where E = depEnv and b = "''junk''" and e = ?e and s = ?s1
      and seen = "{}" and options = "[WithProtosets [''junk.pb'']]" and vfs = emptyFS
      and ?s1.0 = ?s1 and pre = "[]" and p = "''junk.pb''" and post = "[]" and s' = ?s1
      and seen' = "{}" and ?s2.0 = ?s1 and ?seen2.0 = "{}" and mpre = "[]" and m = "''junk.pb''"
      and mpost = "[]" and reg = "\<lambda>files fd. Inl (PlainErr ''conflict'')"
      and fd = appFile and fds = "[]"]
  have a2: "NewServer depEnv emptyFS [WithProtosets [''junk.pb'']] = Inl ?e"
    using B u by (simp add: WithProtosets_def)
  note C = load_errors [where E = depEnv and b = "''junk''" and e = ?e and s = "?init junkFS"
      and seen = "{}" and options = "[]" and vfs = junkFS
      and ?s1.0 = "?init junkFS" and pre = "[]" and p = "''junk.pb''" and post = "[]"
      and s' = "?init junkFS" and seen' = "{}" and ?s2.0 = "?init junkFS" and ?seen2.0 = "{}"
      and mpre = "[''_skip.pb'']" and m = "''junk.pb''"
      and mpost = "[]" and reg = "\<lambda>files fd. Inl (PlainErr ''conflict'')"
      and fd = appFile and fds = "[]"]
  have a3: "NewServer depEnv junkFS [] = Inl ?e"
    using C u by (simp add: junkFS_def HasPrefix_def)
  have a4: "NewServer (depEnv\<lparr>RegisterFile := (\<lambda>files fd. Inl (PlainErr ''conflict''))\<rparr>) junkFS []
     = Inl ?e"
    using C a3 by simp
  note D = load_errors [where E = depEnv and b = "''junk''" and e = "PlainErr ''MissingDependency''"
      and s = "?init emptyFS" and seen = "{}" and options = "[]" and vfs = junkFS
      and ?s1.0 = "?init junkFS" and pre = "[]" and p = "''junk.pb''" and post = "[]"
      and s' = "?init junkFS" and seen' = "{}" and ?s2.0 = "?init junkFS" and ?seen2.0 = "{}"
      and mpre = "[''_skip.pb'']" and m = "''junk.pb''"
      and mpost = "[]" and reg = "\<lambda>files fd. Inl (PlainErr ''conflict'')"
      and fd = appFile and fds = "[]"]
  have r: "RegisterFile depEnv [] appFile = Inl (PlainErr ''MissingDependency'')"
    "fd_Path appFile = ''app.proto''" "fd_Package appFile = ''app''"
    by (simp_all add: depEnv_def Register_def appFile_def)
  have a5: "registerFiles depEnv [appFile] (?init emptyFS) {}
     = (\<lparr>s_log = [(''app'', PlainErr ''MissingDependency'')], s_files = [], s_fs = emptyFS,
         s_protosets = []\<rparr>, {''app.proto''})"
    using D r by simp
  show ?thesis using u(1) a1 a2 a3 a4 a5 by simp
qed


subsection \<open>Templates are not written\<close>

lemma deref_prefix:
  assumes "prefix h h'" "deref h a = Some obj"
  shows "deref h' a = Some obj"
proof -
  from assms(1) obtain zs where "h' = h @ zs" by (auto elim: prefixE)
  with assms(2) show ?thesis by (auto simp: deref_def nth_append split: if_splits)
qed

lemma deref_append_new:
  "deref (h @ zs) (length h + i) = (if i < length zs then Some (zs ! i) else None)"
  by (simp add: deref_def nth_append)

lemma deref_append_new0:
  "deref (h @ z # zs) (length h) = Some z"
  by (simp add: deref_def nth_append)

lemma deref_append_old: "a < length h \<Longrightarrow> deref (h @ zs) a = deref h a"
  by (simp add: deref_def nth_append)

lemma deref_SomeD: "deref h a = Some obj \<Longrightarrow> a < length h \<and> h ! a = obj"
  by (auto simp: deref_def split: if_splits)

lemma deref_update:
  "deref (h[a := obj]) b = (if b < length h then Some (if b = a then obj else h ! b) else None)"
  by (simp add: deref_def)

lemma shapeAt_Verb_not_custom:
  "shapeAt h a = Some (Verb sel pa w body rb bs) \<Longrightarrow> w \<noteq> W_Custom ca"
  by (auto simp: shapeAt_def split: option.splits object.splits wrapper.splits)

lemma shapeAt_UnsetD:
  "shapeAt h a = Some (Unset sel body rb bs) \<Longrightarrow> deref h a = Some (RuleObj sel None body rb bs)"
  by (auto simp: shapeAt_def split: option.splits object.splits wrapper.splits)

lemma shapeAt_VerbD:
  "shapeAt h a = Some (Verb sel pa w body rb bs) \<Longrightarrow>
   deref h a = Some (RuleObj sel (Some pa) body rb bs) \<and> deref h pa = Some (WrapperObj w)"
  by (auto simp: shapeAt_def split: option.splits object.splits wrapper.splits)

lemma shapeAt_CustomVerbD:
  "shapeAt h a = Some (CustomVerb sel pa ca kind path body rb bs) \<Longrightarrow>
   deref h a = Some (RuleObj sel (Some pa) body rb bs) \<and>
   deref h pa = Some (WrapperObj (W_Custom ca)) \<and> deref h ca = Some (CustomObj kind path)"
  by (auto simp: shapeAt_def split: option.splits object.splits wrapper.splits)

lemma shapeAt_UnsetI:
  "deref h a = Some (RuleObj sel None body rb bs) \<Longrightarrow> shapeAt h a = Some (Unset sel body rb bs)"
  by (simp add: shapeAt_def)

lemma shapeAt_VerbI:
  "deref h a = Some (RuleObj sel (Some pa) body rb bs) \<Longrightarrow> deref h pa = Some (WrapperObj w) \<Longrightarrow>
   (\<And>ca. w \<noteq> W_Custom ca) \<Longrightarrow> shapeAt h a = Some (Verb sel pa w body rb bs)"
  by (cases w) (auto simp: shapeAt_def)

lemma shapeAt_CustomVerbI:
  "deref h a = Some (RuleObj sel (Some pa) body rb bs) \<Longrightarrow>
   deref h pa = Some (WrapperObj (W_Custom ca)) \<Longrightarrow> deref h ca = Some (CustomObj kind path) \<Longrightarrow>
   shapeAt h a = Some (CustomVerb sel pa ca kind path body rb bs)"
  by (simp add: shapeAt_def)

lemma Clone_shape:
  "Clone h a =
     (case shapeAt h a of
        None \<Rightarrow> None
      | Some (Unset sel body rb bs) \<Rightarrow> Some (h @ [RuleObj sel None body rb bs], length h)
      | Some (Verb sel pa w body rb bs) \<Rightarrow>
          Some (h @ [WrapperObj w, RuleObj sel (Some (length h)) body rb bs], Suc (length h))
      | Some (CustomVerb sel pa ca kind path body rb bs) \<Rightarrow>
          Some (h @ [CustomObj kind path, WrapperObj (W_Custom (length h)),
                     RuleObj sel (Some (Suc (length h))) body rb bs], Suc (Suc (length h))))"
  by (simp add: Clone_def shapeAt_def alloc_def
      split: option.splits object.splits wrapper.splits)

lemma interpolateAt_shape:
  "interpolateAt h a pkg service meth =
     (case shapeAt h a of
        None \<Rightarrow> None
      | Some (Unset sel body rb bs) \<Rightarrow> Some h
      | Some (Verb sel pa w body rb bs) \<Rightarrow>
          Some (h[pa := WrapperObj (interpolateWrapper w pkg service meth)])
      | Some (CustomVerb sel pa ca kind path body rb bs) \<Rightarrow>
          Some (h[ca := CustomObj kind (interpolate path pkg service meth)]))"
  by (simp add: interpolateAt_def shapeAt_def
      split: option.splits object.splits wrapper.splits)

lemma ruleAt_shape: "ruleAt h a = map_option shapeRule (shapeAt h a)"
  by (simp add: ruleAt_def shapeAt_def
      split: option.splits object.splits wrapper.splits)

lemma interpolateWrapper_not_custom:
  "(\<And>ca. w \<noteq> W_Custom ca) \<Longrightarrow> interpolateWrapper w pkg service meth \<noteq> W_Custom ca'"
  by (cases w) auto

lemma shapeRule_interpolate_Verb:
  "(\<And>ca. w \<noteq> W_Custom ca) \<Longrightarrow>
   shapeRule (Verb sel pa' (interpolateWrapper w pkg service meth) body rb bs)
     = interpolateRule (shapeRule (Verb sel pa w body rb bs)) pkg service meth"
  by (cases w) auto

lemma step_Unset:
  assumes "shapeAt h t = Some (Unset sel body rb bs)"
  shows "Clone h t = Some (h @ [RuleObj sel None body rb bs], length h)"
    and "interpolateAt (h @ [RuleObj sel None body rb bs]) (length h) pkg service meth
           = Some (h @ [RuleObj sel None body rb bs])"
    and "shapeAt (h @ [RuleObj sel None body rb bs]) (length h) = Some (Unset sel body rb bs)"
proof -
  show "Clone h t = Some (h @ [RuleObj sel None body rb bs], length h)"
    using assms by (simp add: Clone_shape)
  show s: "shapeAt (h @ [RuleObj sel None body rb bs]) (length h) = Some (Unset sel body rb bs)"
    by (rule shapeAt_UnsetI) (simp add: deref_append_new0)
  show "interpolateAt (h @ [RuleObj sel None body rb bs]) (length h) pkg service meth
           = Some (h @ [RuleObj sel None body rb bs])"
    by (simp add: interpolateAt_shape s)
qed

lemma step_Verb:
  fixes pkg service meth :: string
  assumes "shapeAt h t = Some (Verb sel pa w body rb bs)"
  defines "h1 \<equiv> h @ [WrapperObj w, RuleObj sel (Some (length h)) body rb bs]"
  defines "h2 \<equiv> h @ [WrapperObj (interpolateWrapper w pkg service meth),
                      RuleObj sel (Some (length h)) body rb bs]"
  shows "Clone h t = Some (h1, Suc (length h))"
    and "interpolateAt h1 (Suc (length h)) pkg service meth = Some h2"
    and "shapeAt h2 (Suc (length h))
           = Some (Verb sel (length h) (interpolateWrapper w pkg service meth) body rb bs)"
proof -
  have nc: "w \<noteq> W_Custom ca" for ca using assms(1) by (rule shapeAt_Verb_not_custom)
  show "Clone h t = Some (h1, Suc (length h))"
    using assms(1) by (simp add: Clone_shape h1_def)
  have d1: "deref h1 (Suc (length h)) = Some (RuleObj sel (Some (length h)) body rb bs)"
    "deref h1 (length h) = Some (WrapperObj w)"
    by (simp_all add: h1_def deref_def nth_append)
  have s1: "shapeAt h1 (Suc (length h)) = Some (Verb sel (length h) w body rb bs)"
    using d1 nc by (rule shapeAt_VerbI)
  show "interpolateAt h1 (Suc (length h)) pkg service meth = Some h2"
    by (simp add: interpolateAt_shape s1) (simp add: h1_def h2_def list_update_append)
  have d2: "deref h2 (Suc (length h)) = Some (RuleObj sel (Some (length h)) body rb bs)"
    "deref h2 (length h) = Some (WrapperObj (interpolateWrapper w pkg service meth))"
    by (simp_all add: h2_def deref_def nth_append)
  show "shapeAt h2 (Suc (length h))
           = Some (Verb sel (length h) (interpolateWrapper w pkg service meth) body rb bs)"
    using d2 interpolateWrapper_not_custom [of w pkg service meth, OF nc]
    by (rule shapeAt_VerbI)
qed

lemma step_CustomVerb:
  fixes pkg service meth :: string
  assumes "shapeAt h t = Some (CustomVerb sel pa ca kind path body rb bs)"
  defines "h1 \<equiv> h @ [CustomObj kind path, WrapperObj (W_Custom (length h)),
                      RuleObj sel (Some (Suc (length h))) body rb bs]"
  defines "h2 \<equiv> h @ [CustomObj kind (interpolate path pkg service meth),
                      WrapperObj (W_Custom (length h)),
                      RuleObj sel (Some (Suc (length h))) body rb bs]"
  shows "Clone h t = Some (h1, Suc (Suc (length h)))"
    and "interpolateAt h1 (Suc (Suc (length h))) pkg service meth = Some h2"
    and "shapeAt h2 (Suc (Suc (length h)))
           = Some (CustomVerb sel (Suc (length h)) (length h) kind
                     (interpolate path pkg service meth) body rb bs)"
proof -
  show "Clone h t = Some (h1, Suc (Suc (length h)))"
    using assms(1) by (simp add: Clone_shape h1_def)
  have d1: "deref h1 (Suc (Suc (length h))) = Some (RuleObj sel (Some (Suc (length h))) body rb bs)"
    "deref h1 (Suc (length h)) = Some (WrapperObj (W_Custom (length h)))"
    "deref h1 (length h) = Some (CustomObj kind path)"
    by (simp_all add: h1_def deref_def nth_append)
  have s1: "shapeAt h1 (Suc (Suc (length h)))
      = Some (CustomVerb sel (Suc (length h)) (length h) kind path body rb bs)"
    using d1 by (rule shapeAt_CustomVerbI)
  show "interpolateAt h1 (Suc (Suc (length h))) pkg service meth = Some h2"
    by (simp add: interpolateAt_shape s1) (simp add: h1_def h2_def list_update_append)
  have d2: "deref h2 (Suc (Suc (length h))) = Some (RuleObj sel (Some (Suc (length h))) body rb bs)"
    "deref h2 (Suc (length h)) = Some (WrapperObj (W_Custom (length h)))"
    "deref h2 (length h) = Some (CustomObj kind (interpolate path pkg service meth))"
    by (simp_all add: h2_def deref_def nth_append)
  show "shapeAt h2 (Suc (Suc (length h)))
           = Some (CustomVerb sel (Suc (length h)) (length h) kind
                     (interpolate path pkg service meth) body rb bs)"
    using d2 by (rule shapeAt_CustomVerbI)
qed

text \<open>One iteration of the loop, from a template that is complete on the heap.\<close>

lemma step_total:
  assumes "ruleAt h t = Some v"
  shows "\<exists>h1 r h2. Clone h t = Some (h1, r) \<and>
           interpolateAt h1 r pkg service meth = Some h2 \<and>
           prefix h h2 \<and> length h \<le> r \<and> r < length h2 \<and>
           ruleAt h2 r = Some (interpolateRule v pkg service meth)"
proof -
  from assms obtain sh where sh: "shapeAt h t = Some sh" "v = shapeRule sh"
    by (auto simp: ruleAt_shape)
  show ?thesis
  proof (cases sh)
    case (Unset sel body rb bs)
    note s = step_Unset [OF sh(1) [unfolded Unset]]
    show ?thesis
      using sh(2) Unset by (simp add: ruleAt_shape s)
  next
    case (Verb sel pa w body rb bs)
    note s = step_Verb [OF sh(1) [unfolded Verb]]
    have nc: "w \<noteq> W_Custom ca" for ca
      using sh(1) [unfolded Verb] by (rule shapeAt_Verb_not_custom)
    show ?thesis
      using sh(2) Verb shapeRule_interpolate_Verb [where w = w and sel = sel and pa' = "length h" and pkg = pkg and service = service and meth = meth and body = body and rb = rb and bs = bs and pa = pa, OF nc]
      by (simp add: ruleAt_shape s)
  next
    case (CustomVerb sel pa ca kind path body rb bs)
    note s = step_CustomVerb [OF sh(1) [unfolded CustomVerb]]
    show ?thesis
      using sh(2) CustomVerb by (simp add: ruleAt_shape s)
  qed
qed

lemma ruleAt_prefix:
  assumes "prefix h h'" "ruleAt h a = Some v"
  shows "ruleAt h' a = Some v"
proof -
  from assms(2) obtain sh where sh: "shapeAt h a = Some sh" "v = shapeRule sh"
    by (auto simp: ruleAt_shape)
  note d = deref_prefix [OF assms(1)]
  have "shapeAt h' a = Some sh"
  proof (cases sh)
    case (Unset sel body rb bs)
    from shapeAt_UnsetD [OF sh(1) [unfolded Unset]] show ?thesis
      unfolding Unset by (intro shapeAt_UnsetI d)
  next
    case (Verb sel pa w body rb bs)
    from shapeAt_VerbD [OF sh(1) [unfolded Verb]] shapeAt_Verb_not_custom [OF sh(1) [unfolded Verb]]
    show ?thesis
      unfolding Verb by (intro shapeAt_VerbI d) auto
  next
    case (CustomVerb sel pa ca kind path body rb bs)
    from shapeAt_CustomVerbD [OF sh(1) [unfolded CustomVerb]] show ?thesis
      unfolding CustomVerb by (intro shapeAt_CustomVerbI d) auto
  qed
  with sh(2) show ?thesis by (simp add: ruleAt_shape)
qed

lemma ruleAt_prefix_eq:
  "prefix h h' \<Longrightarrow> ruleAt h a \<noteq> None \<Longrightarrow> ruleAt h' a = ruleAt h a"
  using ruleAt_prefix [of h h' a] by auto

lemma interpolateHTTPRules_heap_spec:
  assumes "\<forall>t\<in>set tmpls. ruleAt h t \<noteq> None"
  shows "\<exists>h' rules. interpolateHTTPRules_heap h tmpls pkg service meth = Some (h', rules) \<and>
           prefix h h' \<and> (\<forall>r\<in>set rules. length h \<le> r \<and> r < length h') \<and> distinct rules \<and>
           map (ruleAt h') rules
             = map (\<lambda>t. map_option (\<lambda>v. interpolateRule v pkg service meth) (ruleAt h t)) tmpls"
  using assms
proof (induction tmpls arbitrary: h)
  case Nil
  then show ?case by simp
next
  case (Cons t rest)
  from Cons.prems obtain v where v: "ruleAt h t = Some v" by auto
  from step_total [OF v, of pkg service meth]
  obtain h1 r h2 where s: "Clone h t = Some (h1, r)"
    "interpolateAt h1 r pkg service meth = Some h2" "prefix h h2" "length h \<le> r"
    "r < length h2" "ruleAt h2 r = Some (interpolateRule v pkg service meth)"
    by blast
  have same: "ruleAt h2 t' = ruleAt h t'" if "t' \<in> set rest" for t'
    using that Cons.prems s(3) by (simp add: ruleAt_prefix_eq)
  then have "\<forall>t'\<in>set rest. ruleAt h2 t' \<noteq> None" using Cons.prems by simp
  from Cons.IH [OF this]
  obtain h3 rules where i: "interpolateHTTPRules_heap h2 rest pkg service meth = Some (h3, rules)"
    "prefix h2 h3" "\<forall>r'\<in>set rules. length h2 \<le> r' \<and> r' < length h3" "distinct rules"
    "map (ruleAt h3) rules
       = map (\<lambda>t. map_option (\<lambda>v. interpolateRule v pkg service meth) (ruleAt h2 t)) rest"
    by blast
  have l: "length h \<le> length h2" "length h2 \<le> length h3"
    using s(3) i(2) by (simp_all add: prefix_length_le)
  have 1: "interpolateHTTPRules_heap h (t # rest) pkg service meth = Some (h3, r # rules)"
    using s(1,2) i(1) by simp
  have 2: "prefix h h3" using s(3) i(2) by (rule prefix_order.trans)
  have 3: "\<forall>r'\<in>set (r # rules). length h \<le> r' \<and> r' < length h3"
    using s(4,5) i(3) l by auto
  have 4: "distinct (r # rules)" using i(3,4) s(5) by auto
  have 5: "ruleAt h3 r = Some (interpolateRule v pkg service meth)"
    using i(2) s(6) by (rule ruleAt_prefix)
  have 6: "map (ruleAt h3) rules
       = map (\<lambda>t. map_option (\<lambda>v. interpolateRule v pkg service meth) (ruleAt h t)) rest"
    using i(5) same by simp
  show ?case using 1 2 3 4 5 6 v by simp
qed

lemma interpolateForMethods_spec:
  assumes "\<forall>t\<in>set tmpls. ruleAt h t \<noteq> None"
  shows "\<exists>h' rss. interpolateForMethods h tmpls calls = Some (h', rss) \<and> prefix h h' \<and>
           length rss = length calls \<and> (\<forall>rules\<in>set rss. \<forall>r\<in>set rules. length h \<le> r)"
  using assms
proof (induction calls arbitrary: h)
  case Nil
  then show ?case by simp
next
  case (Cons c calls)
  obtain pkg service meth where c: "c = (pkg, service, meth)" by (cases c)
  from interpolateHTTPRules_heap_spec [OF Cons.prems, of pkg service meth]
  obtain h1 rules where s: "interpolateHTTPRules_heap h tmpls pkg service meth = Some (h1, rules)"
    "prefix h h1" "\<forall>r\<in>set rules. length h \<le> r \<and> r < length h1"
    by blast
  have "\<forall>t\<in>set tmpls. ruleAt h1 t \<noteq> None"
    using Cons.prems s(2) by (simp add: ruleAt_prefix_eq)
  from Cons.IH [OF this]
  obtain h2 rss where i: "interpolateForMethods h1 tmpls calls = Some (h2, rss)" "prefix h1 h2"
    "length rss = length calls" "\<forall>rules\<in>set rss. \<forall>r\<in>set rules. length h1 \<le> r"
    by blast
  have l: "length h \<le> length h1" using s(2) by (rule prefix_length_le)
  have 1: "interpolateForMethods h tmpls (c # calls) = Some (h2, rules # rss)"
    using s(1) i(1) c by simp
  have 2: "prefix h h2" using s(2) i(2) by (rule prefix_order.trans)
  have 3: "\<forall>rules\<in>set (rules # rss). \<forall>r\<in>set rules. length h \<le> r"
    using s(3) i(4) l by fastforce
  show ?case using 1 2 3 i(3) by simp
qed

lemma prefix_deref:
  "prefix h h' \<Longrightarrow> a < length h \<Longrightarrow> h' ! a = h ! a"
  by (auto elim!: prefixE simp: nth_append)

lemma ruleAt_valid: "ruleAt h t \<noteq> None \<Longrightarrow> t < length h"
  by (auto simp: ruleAt_def deref_def split: if_splits)

text \<open>
  The two models of \<open>interpolateHTTPRules\<close> agree: the rules returned on the heap stand
  for the messages that the function on values computes from the templates' messages.
\<close>

lemma interpolateHTTPRules_map:
  "interpolateHTTPRules vals pkg service meth
     = map (\<lambda>v. interpolateRule v pkg service meth) vals"
  by (induction vals) simp_all

lemma interpolateHTTPRules_heap_values:
  assumes "map (ruleAt h) tmpls = map Some vals"
    and "interpolateHTTPRules_heap h tmpls pkg service meth = Some (h', rules)"
  shows "map (ruleAt h') rules = map Some (interpolateHTTPRules vals pkg service meth)"
proof -
  have v: "\<forall>t\<in>set tmpls. ruleAt h t \<noteq> None"
  proof
    fix t assume "t \<in> set tmpls"
    then have "ruleAt h t \<in> set (map (ruleAt h) tmpls)" by simp
    with assms(1) show "ruleAt h t \<noteq> None" by auto
  qed
  from interpolateHTTPRules_heap_spec [OF v, of pkg service meth] assms(2)
  have "map (ruleAt h') rules
      = map (\<lambda>t. map_option (\<lambda>v. interpolateRule v pkg service meth) (ruleAt h t)) tmpls"
    by auto
  also have "\<dots> = map (map_option (\<lambda>v. interpolateRule v pkg service meth)) (map (ruleAt h) tmpls)"
    by simp
  also have "\<dots> = map Some (interpolateHTTPRules vals pkg service meth)"
    by (simp add: assms(1) interpolateHTTPRules_map)
  finally show ?thesis .
qed

text \<open>
  C10. From templates that are complete rules on the heap, \<open>interpolateHTTPRules\<close>
  returns, and so does any sequence of its calls for any methods. The heap it leaves
  extends the heap it was given: every object that existed, the templates with their
  wrappers and custom patterns among them, is unchanged, so every template still stands
  for the same message. Every returned rule is a newly allocated object, at an address
  that did not exist before and is no template's, the returned rules are distinct from
  each other, and the i-th one stands for the i-th template interpolated.
\<close>

theorem templates_unchanged:
  assumes "\<forall>t\<in>set tmpls. ruleAt h t \<noteq> None"
  shows "(\<exists>h' rules. interpolateHTTPRules_heap h tmpls pkg service meth = Some (h', rules) \<and>
            prefix h h' \<and> (\<forall>a<length h. h' ! a = h ! a) \<and>
            (\<forall>t\<in>set tmpls. ruleAt h' t = ruleAt h t) \<and>
            (\<forall>r\<in>set rules. length h \<le> r \<and> r \<notin> set tmpls) \<and> distinct rules \<and>
            map (ruleAt h') rules
              = map (\<lambda>t. map_option (\<lambda>v. interpolateRule v pkg service meth) (ruleAt h t)) tmpls) \<and>
         (\<exists>h' rss. interpolateForMethods h tmpls calls = Some (h', rss) \<and>
            prefix h h' \<and> (\<forall>a<length h. h' ! a = h ! a) \<and>
            (\<forall>t\<in>set tmpls. ruleAt h' t = ruleAt h t) \<and> length rss = length calls \<and>
            (\<forall>rules\<in>set rss. \<forall>r\<in>set rules. length h \<le> r \<and> r \<notin> set tmpls))"
proof
  have old: "t < length h" if "t \<in> set tmpls" for t
    using that assms by (simp add: ruleAt_valid)
  from interpolateHTTPRules_heap_spec [OF assms, of pkg service meth]
  obtain h' rules where s: "interpolateHTTPRules_heap h tmpls pkg service meth = Some (h', rules)"
    "prefix h h'" "\<forall>r\<in>set rules. length h \<le> r \<and> r < length h'" "distinct rules"
    "map (ruleAt h') rules
       = map (\<lambda>t. map_option (\<lambda>v. interpolateRule v pkg service meth) (ruleAt h t)) tmpls"
    by blast
  have 1: "\<forall>a<length h. h' ! a = h ! a" using s(2) by (simp add: prefix_deref)
  have 2: "\<forall>t\<in>set tmpls. ruleAt h' t = ruleAt h t"
    using assms s(2) by (simp add: ruleAt_prefix_eq)
  have 3: "\<forall>r\<in>set rules. length h \<le> r \<and> r \<notin> set tmpls"
    using s(3) old by fastforce
  show "\<exists>h' rules. interpolateHTTPRules_heap h tmpls pkg service meth = Some (h', rules) \<and>
            prefix h h' \<and> (\<forall>a<length h. h' ! a = h ! a) \<and>
            (\<forall>t\<in>set tmpls. ruleAt h' t = ruleAt h t) \<and>
            (\<forall>r\<in>set rules. length h \<le> r \<and> r \<notin> set tmpls) \<and> distinct rules \<and>
            map (ruleAt h') rules
              = map (\<lambda>t. map_option (\<lambda>v. interpolateRule v pkg service meth) (ruleAt h t)) tmpls"
    using s(1,2,4,5) 1 2 3 by blast
  from interpolateForMethods_spec [OF assms, of calls]
  obtain h2 rss where m: "interpolateForMethods h tmpls calls = Some (h2, rss)" "prefix h h2"
    "length rss = length calls" "\<forall>rules\<in>set rss. \<forall>r\<in>set rules. length h \<le> r"
    by blast
  have 4: "\<forall>a<length h. h2 ! a = h ! a" using m(2) by (simp add: prefix_deref)
  have 5: "\<forall>t\<in>set tmpls. ruleAt h2 t = ruleAt h t"
    using assms m(2) by (simp add: ruleAt_prefix_eq)
  have 6: "\<forall>rules\<in>set rss. \<forall>r\<in>set rules. length h \<le> r \<and> r \<notin> set tmpls"
    using m(4) old by fastforce
  show "\<exists>h' rss. interpolateForMethods h tmpls calls = Some (h', rss) \<and>
            prefix h h' \<and> (\<forall>a<length h. h' ! a = h ! a) \<and>
            (\<forall>t\<in>set tmpls. ruleAt h' t = ruleAt h t) \<and> length rss = length calls \<and>
            (\<forall>rules\<in>set rss. \<forall>r\<in>set rules. length h \<le> r \<and> r \<notin> set tmpls)"
    using m(1,2,3) 4 5 6 by blast
qed

lemma templateHeap_rules:
  "ruleAt templateHeap 0 = Some postTemplate" "ruleAt templateHeap 2 = Some customTemplate"
  by (simp_all add: ruleAt_def deref_def templateHeap_def postTemplate_def customTemplate_def)

lemma helloHeap_run:
  "interpolateHTTPRules_heap templateHeap [0, 2] ''pkg'' ''Greeter'' ''Hello''
     = Some (helloHeap, [6, 9])"
  by code_simp

theorem templates_unchanged_witness:
  "ruleAt templateHeap 0 = Some postTemplate \<and> ruleAt templateHeap 2 = Some customTemplate \<and>
   interpolateHTTPRules_heap templateHeap [0, 2] ''pkg'' ''Greeter'' ''Hello''
     = Some (helloHeap, [6, 9]) \<and>
   prefix templateHeap helloHeap \<and>
   ruleAt helloHeap 0 = Some postTemplate \<and> ruleAt helloHeap 2 = Some customTemplate \<and>
   map (ruleAt helloHeap) [6, 9]
     = [Some (interpolateRule postTemplate ''pkg'' ''Greeter'' ''Hello''),
        Some (interpolateRule customTemplate ''pkg'' ''Greeter'' ''Hello'')] \<and>
   (\<exists>h' rss. interpolateForMethods templateHeap [0, 2]
                [(''pkg'', ''Greeter'', ''Hello''), (''pkg'', ''Greeter'', ''Catch'')] = Some (h', rss) \<and>
              ruleAt h' 0 = Some postTemplate \<and> ruleAt h' 2 = Some customTemplate)"
proof -
  let ?calls = "[(''pkg'', ''Greeter'', ''Hello''), (''pkg'', ''Greeter'', ''Catch'')]"
  have hyp: "\<forall>t\<in>set [0, 2]. ruleAt templateHeap t \<noteq> None"
    using templateHeap_rules by simp
  note T = templates_unchanged [OF hyp, where pkg = "''pkg''" and service = "''Greeter''"
      and meth = "''Hello''" and calls = ?calls]
  from T obtain h' rules where
    a: "interpolateHTTPRules_heap templateHeap [0, 2] ''pkg'' ''Greeter'' ''Hello'' = Some (h', rules)"
      "prefix templateHeap h'" "\<forall>t\<in>set [0, 2]. ruleAt h' t = ruleAt templateHeap t"
      "map (ruleAt h') rules
         = map (\<lambda>t. map_option (\<lambda>v. interpolateRule v ''pkg'' ''Greeter'' ''Hello'')
                  (ruleAt templateHeap t)) [0, 2]"
    by blast
  from a(1) helloHeap_run have e: "h' = helloHeap" "rules = [6, 9]" by simp_all
  from T obtain h2 rss where
    b: "interpolateForMethods templateHeap [0, 2] ?calls = Some (h2, rss)"
      "\<forall>t\<in>set [0, 2]. ruleAt h2 t = ruleAt templateHeap t"
    by blast
  have c: "\<exists>h' rss. interpolateForMethods templateHeap [0, 2] ?calls = Some (h', rss) \<and>
              ruleAt h' 0 = Some postTemplate \<and> ruleAt h' 2 = Some customTemplate"
    using b templateHeap_rules by auto
  show ?thesis
    using a(2,3,4) e helloHeap_run templateHeap_rules c by simp
qed

end
